theory Spec2Isabelle
  imports Main "HOL-Library.Word"
begin

section \<open>CppSqlWrapper: a shallow embedding\<close>

text \<open>
  The wrapper (\<^verbatim>\<open>CppSqlWrapper.cpp\<close>, \<^verbatim>\<open>CppSqlWrapper.h\<close>) has two classes,
  \<^verbatim>\<open>SqlStatement\<close> and \<^verbatim>\<open>SqlDatabase\<close>, over the SQLite C interface. Each member
  function becomes a HOL function that takes the object and the engine and returns the
  outcome together with the object and the engine as the call leaves them: a C++
  exception does not undo the assignments made before it, so the state is returned on
  the failing paths too.

  The engine is outside the repository. What the wrapper can observe of it is kept in a
  small record (which prepared statements are live, which connections are open, which
  state-changing primitives were called, in order); what the engine answers to a
  primitive (a status code, a column count, a tail pointer, a cell value) is a
  parameter of the function that calls the primitive, so every branch of the wrapper
  on an engine answer is a branch of the model.
\<close>

subsection \<open>Exceptions and undefined behaviour\<close>

text \<open>
  \<^verbatim>\<open>SqlDatabaseException(reason)\<close> carries its reason;
  \<^verbatim>\<open>SqlDatabaseBusyException\<close> is the subclass raised on lock contention.
\<close>

datatype exn = SqlDatabaseException string | SqlDatabaseBusyException

fun what :: "exn \<Rightarrow> string" where
  "what (SqlDatabaseException reason) = ''Database error: '' @ reason"
| "what SqlDatabaseBusyException = ''Database error: Database error: Database busy.''"

text \<open>
  A call either returns, throws, or leaves the language's defined behaviour (a read or
  a write outside an array).
\<close>

datatype failure = Throw exn | UndefinedBehaviour

type_synonym 'a outcome = "failure + 'a"

text \<open>The \<^verbatim>\<open>assert(a)\<close> macro throws with the text of its argument.\<close>

definition assertion_failed :: "string \<Rightarrow> failure" where
  "assertion_failed a = Throw (SqlDatabaseException (''Assertion failed: '' @ a))"

subsection \<open>Engine constants\<close>

text \<open>
  The values of the engine's header \<^verbatim>\<open>sqlite3.h\<close>; \<^verbatim>\<open>SQLITE_NULL\<close> is also
  declared by the wrapper's own header.
\<close>

definition SQLITE_OK :: int where "SQLITE_OK = 0"
definition SQLITE_ERROR :: int where "SQLITE_ERROR = 1"
definition SQLITE_BUSY :: int where "SQLITE_BUSY = 5"
definition SQLITE_ROW :: int where "SQLITE_ROW = 100"
definition SQLITE_DONE :: int where "SQLITE_DONE = 101"
definition SQLITE_NULL :: int where "SQLITE_NULL = 5"

subsection \<open>Machine integers\<close>

text \<open>
  The values the typed getters and \<^verbatim>\<open>getScalar\<close> take and return are C++
  \<^verbatim>\<open>int\<close> (32 bits, signed) and \<^verbatim>\<open>int64_t\<close> (64 bits, signed): words, read
  with \<open>sint\<close>. An \<^verbatim>\<open>int\<close> returned as \<^verbatim>\<open>int64_t\<close> is sign-extended
  (\<open>scast\<close>). Status codes, column counts and column indices are \<^verbatim>\<open>int\<close> too;
  the wrapper only compares them and counts columns upwards below the column count, so
  they are modelled as integers.
\<close>

type_synonym c_int = "32 word"
type_synonym int64_t = "64 word"

text \<open>
  An \<^verbatim>\<open>int64_t\<close> argument handed to a parameter of type \<^verbatim>\<open>int\<close> is converted at
  the call: the low 32 bits are kept.
\<close>

definition int_conversion :: "int64_t \<Rightarrow> c_int" where
  "int_conversion v = ucast v"

subsection \<open>Status codes to exceptions\<close>

text \<open>Decimal rendering of an \<^verbatim>\<open>int\<close>, as \<^verbatim>\<open>operator<<\<close> prints it.\<close>

fun digits :: "nat \<Rightarrow> string" where
  "digits n =
     (if n < 10 then [''0123456789'' ! n]
      else digits (n div 10) @ [''0123456789'' ! (n mod 10)])"

declare digits.simps [simp del]

definition show_int :: "int \<Rightarrow> string" where
  "show_int i = (if i < 0 then CHR ''-'' # digits (nat (- i)) else digits (nat i))"

definition code_descr :: "string list" where
  "code_descr =
     [''SQLITE_OK'', ''SQLITE_ERROR'', ''SQLITE_INTERNAL'', ''SQLITE_PERM'',
      ''SQLITE_ABORT'', ''SQLITE_BUSY'', ''SQLITE_LOCKED'', ''SQLITE_NOMEM'',
      ''SQLITE_READONLY'', ''SQLITE_INTERRUPT'', ''SQLITE_IOERR'', ''SQLITE_CORRUPT'',
      ''SQLITE_NOTFOUND'', ''SQLITE_FULL'', ''SQLITE_CANTOPEN'', ''SQLITE_PROTOCOL'',
      ''SQLITE_EMPTY'', ''SQLITE_SCHEMA'', ''SQLITE_TOOBIG'', ''SQLITE_CONSTRAINT'',
      ''SQLITE_MISMATCH'', ''SQLITE_MISUSE'', ''SQLITE_NOLFS'', ''SQLITE_AUTH'',
      ''SQLITE_FORMAT'', ''SQLITE_RANGE'', ''SQLITE_NOTADB'']"

text \<open>
  The subscript \<^verbatim>\<open>a[i]\<close> of a C++ array: defined inside the array only, \<open>None\<close>
  for an index outside it.
\<close>

definition subscript :: "'a list \<Rightarrow> int \<Rightarrow> 'a option" where
  "subscript a i = (if 0 \<le> i \<and> i < int (length a) then Some (a ! nat i) else None)"

text \<open>
  \<^verbatim>\<open>ThrowStatusCodeException(statusCode, db)\<close>; \<open>errmsg\<close> is what
  \<^verbatim>\<open>sqlite3_errmsg(db)\<close> answers. The function never returns: its value is the
  failure it ends in.
\<close>

definition ThrowStatusCodeException :: "int \<Rightarrow> string \<Rightarrow> failure" where
  "ThrowStatusCodeException statusCode errmsg =
     (if statusCode = SQLITE_BUSY then Throw SqlDatabaseBusyException
      else if statusCode = SQLITE_ERROR then Throw (SqlDatabaseException errmsg)
      else
        let msg = ''Result code '' @ show_int statusCode in
        if statusCode < int (length code_descr) then
          (case subscript code_descr statusCode of
             None \<Rightarrow> UndefinedBehaviour
           | Some d \<Rightarrow> Throw (SqlDatabaseException (msg @ '' ('' @ d @ '')'')))
        else Throw (SqlDatabaseException msg))"

subsection \<open>The engine as the wrapper sees it\<close>

type_synonym sqlite3 = nat
type_synonym sqlite3_stmt = nat

text \<open>A value handed to one of the \<^verbatim>\<open>sqlite3_bind_*\<close> primitives.\<close>

datatype bind_value =
    BindText "string option"
  | BindInt c_int
  | BindInt64 int64_t
  | BindDouble "64 word"
  | BindBlob string int
  | BindNull

datatype call =
    Prepare sqlite3 string
  | Step sqlite3_stmt
  | Reset sqlite3_stmt
  | Finalize sqlite3_stmt
  | Bind "sqlite3_stmt option" int bind_value
  | Close sqlite3

record engine =
  stmts :: "(sqlite3_stmt \<times> sqlite3) list"
  conns :: "sqlite3 list"
  calls :: "call list"

definition sqlite3_reset :: "engine \<Rightarrow> sqlite3_stmt \<Rightarrow> engine" where
  "sqlite3_reset eng vm = eng\<lparr>calls := calls eng @ [Reset vm]\<rparr>"

definition sqlite3_step :: "engine \<Rightarrow> sqlite3_stmt \<Rightarrow> engine" where
  "sqlite3_step eng vm = eng\<lparr>calls := calls eng @ [Step vm]\<rparr>"

definition sqlite3_bind ::
  "engine \<Rightarrow> sqlite3_stmt option \<Rightarrow> int \<Rightarrow> bind_value \<Rightarrow> engine" where
  "sqlite3_bind eng vm idx v = eng\<lparr>calls := calls eng @ [Bind vm idx v]\<rparr>"

definition sqlite3_finalize :: "engine \<Rightarrow> sqlite3_stmt \<Rightarrow> engine" where
  "sqlite3_finalize eng vm =
     eng\<lparr>stmts := filter (\<lambda>(v, d). v \<noteq> vm) (stmts eng),
         calls := calls eng @ [Finalize vm]\<rparr>"

text \<open>
  \<^verbatim>\<open>sqlite3_prepare_v2\<close>: the engine answers a status, a statement handle (or
  null) and a tail pointer; a handle it hands out is live until finalized.
\<close>

definition sqlite3_prepare_v2 ::
  "engine \<Rightarrow> sqlite3 \<Rightarrow> string \<Rightarrow> sqlite3_stmt option \<Rightarrow> engine" where
  "sqlite3_prepare_v2 eng db sql pVM =
     eng\<lparr>stmts := (case pVM of None \<Rightarrow> stmts eng | Some vm \<Rightarrow> stmts eng @ [(vm, db)]),
         calls := calls eng @ [Prepare db sql]\<rparr>"

text \<open>\<^verbatim>\<open>sqlite3_next_stmt(db, 0)\<close>: the first live statement of the connection.\<close>

definition sqlite3_next_stmt :: "engine \<Rightarrow> sqlite3 \<Rightarrow> sqlite3_stmt option" where
  "sqlite3_next_stmt eng db = map_option fst (find (\<lambda>(v, d). d = db) (stmts eng))"

text \<open>
  \<^verbatim>\<open>sqlite3_close\<close>: \<open>rc\<close> is the status the engine answers; the connection is
  released when that status is \<^verbatim>\<open>SQLITE_OK\<close>.
\<close>

definition sqlite3_close :: "engine \<Rightarrow> sqlite3 \<Rightarrow> int \<Rightarrow> engine" where
  "sqlite3_close eng db rc =
     eng\<lparr>conns := (if rc = SQLITE_OK then removeAll db (conns eng) else conns eng),
         calls := calls eng @ [Close db]\<rparr>"

subsection \<open>Statement handle\<close>

text \<open>
  The members of \<^verbatim>\<open>SqlStatement\<close>. The member \<^verbatim>\<open>mResult\<close> is a view holding
  only the address of its statement, so the row accessors below take the statement.
\<close>

record SqlStatement =
  mpVM :: "sqlite3_stmt option"
  mBindNext :: int
  mEndOfRows :: bool
  mColsInResult :: int

definition SqlStatement_new :: "sqlite3_stmt option \<Rightarrow> SqlStatement" where
  "SqlStatement_new pVM =
     \<lparr>mpVM = pVM, mBindNext = 1, mEndOfRows = True, mColsInResult = 0\<rparr>"

definition destroy :: "SqlStatement \<Rightarrow> engine \<Rightarrow> SqlStatement \<times> engine" where
  "destroy s eng =
     (let s1 = s\<lparr>mEndOfRows := True\<rparr> in
      case mpVM s1 of
        None \<Rightarrow> (s1, eng)
      | Some vm \<Rightarrow> (s1\<lparr>mpVM := None\<rparr>, sqlite3_finalize eng vm))"

definition hasRow :: "SqlStatement \<Rightarrow> bool" where
  "hasRow s = (\<not> mEndOfRows s)"

definition onBind :: "SqlStatement \<Rightarrow> engine \<Rightarrow> unit outcome \<times> SqlStatement \<times> engine" where
  "onBind s eng =
     (case mpVM s of
        None \<Rightarrow> (Inl (assertion_failed ''mpVM != NULL''), s, eng)
      | Some vm \<Rightarrow>
          if mBindNext s = 1
          then (Inr (), s\<lparr>mEndOfRows := True, mColsInResult := 0\<rparr>, sqlite3_reset eng vm)
          else (Inr (), s, eng))"

text \<open>
  The six \<^verbatim>\<open>bind\<close> overloads and \<^verbatim>\<open>bindNull\<close> differ in the primitive they call
  and in the reason they throw with. \<open>rc\<close> is the status the primitive answers. The
  cursor is incremented as the argument is evaluated, before the primitive runs.
\<close>

fun bind_reason :: "bind_value \<Rightarrow> string" where
  "bind_reason (BindText _) = ''Error binding string param.''"
| "bind_reason (BindInt _) = ''Error binding int param''"
| "bind_reason (BindInt64 _) = ''Error binding int param''"
| "bind_reason (BindDouble _) = ''Error binding double param''"
| "bind_reason (BindBlob _ _) = ''Error binding blob param''"
| "bind_reason BindNull = ''Error binding NULL param''"

definition bind ::
  "SqlStatement \<Rightarrow> engine \<Rightarrow> bind_value \<Rightarrow> int \<Rightarrow> unit outcome \<times> SqlStatement \<times> engine" where
  "bind s eng v rc =
     (case onBind s eng of
        (Inl f, s1, eng1) \<Rightarrow> (Inl f, s1, eng1)
      | (Inr _, s1, eng1) \<Rightarrow>
          let s2 = s1\<lparr>mBindNext := mBindNext s1 + 1\<rparr>;
              eng2 = sqlite3_bind eng1 (mpVM s1) (mBindNext s1) v
          in if rc \<noteq> SQLITE_OK
             then (Inl (Throw (SqlDatabaseException (bind_reason v))), s2, eng2)
             else (Inr (), s2, eng2))"

definition bindSame :: "SqlStatement \<Rightarrow> engine \<Rightarrow> unit outcome \<times> SqlStatement \<times> engine" where
  "bindSame s eng =
     (case onBind s eng of
        (Inl f, s1, eng1) \<Rightarrow> (Inl f, s1, eng1)
      | (Inr _, s1, eng1) \<Rightarrow> (Inr (), s1\<lparr>mBindNext := mBindNext s1 + 1\<rparr>, eng1))"

text \<open>
  What the engine answers when a statement is stepped: the status of
  \<^verbatim>\<open>sqlite3_step\<close>, the count of \<^verbatim>\<open>sqlite3_column_count\<close> and the text of
  \<^verbatim>\<open>sqlite3_errmsg\<close>.
\<close>

record step_answer =
  result :: int
  column_count :: int
  errmsg :: string

definition execute ::
  "SqlStatement \<Rightarrow> engine \<Rightarrow> step_answer \<Rightarrow> unit outcome \<times> SqlStatement \<times> engine" where
  "execute s eng a =
     (case mpVM s of
        None \<Rightarrow> (Inl (assertion_failed ''mpVM != NULL''), s, eng)
      | Some vm \<Rightarrow>
          let s1 = s\<lparr>mBindNext := 1\<rparr>;
              eng1 = (if \<not> mEndOfRows s1 then sqlite3_reset eng vm else eng);
              eng2 = sqlite3_step eng1 vm
          in if result a = SQLITE_DONE
             then (Inr (), s1\<lparr>mEndOfRows := True, mColsInResult := 0\<rparr>, eng2)
             else if result a = SQLITE_ROW
             then (Inr (), s1\<lparr>mEndOfRows := False, mColsInResult := column_count a\<rparr>, eng2)
             else (Inl (ThrowStatusCodeException (result a) (errmsg a)), s1, eng2))"

text \<open>
  \<^verbatim>\<open>currentRow()\<close> returns the view of the statement, that is, the statement.
\<close>

definition currentRow :: "SqlStatement \<Rightarrow> SqlStatement outcome" where
  "currentRow s =
     (case mpVM s of
        None \<Rightarrow> Inl (assertion_failed ''mpVM != NULL'')
      | Some vm \<Rightarrow>
          if mEndOfRows s
          then Inl (Throw (SqlDatabaseException ''called currentRow() after reaching end of rows''))
          else Inr s)"

text \<open>
  \<^verbatim>\<open>nextRow()\<close> steps once when a row is current. The assignment after the call of \<^verbatim>\<open>ThrowStatusCodeException\<close> is
  never reached, since that function does not return.
\<close>

definition nextRow ::
  "SqlStatement \<Rightarrow> engine \<Rightarrow> step_answer \<Rightarrow> bool outcome \<times> SqlStatement \<times> engine" where
  "nextRow s eng a =
     (case mpVM s of
        None \<Rightarrow> (Inl (assertion_failed ''mpVM != NULL''), s, eng)
      | Some vm \<Rightarrow>
          if mEndOfRows s then (Inr False, s, eng)
          else
            let eng1 = sqlite3_step eng vm in
            if result a = SQLITE_DONE
            then (let s1 = s\<lparr>mEndOfRows := True\<rparr> in (Inr (\<not> mEndOfRows s1), s1, eng1))
            else if result a = SQLITE_ROW
            then (let s1 = s\<lparr>mEndOfRows := False\<rparr> in (Inr (\<not> mEndOfRows s1), s1, eng1))
            else (Inl (ThrowStatusCodeException (result a) (errmsg a)), s, eng1))"

subsection \<open>Result row view\<close>

text \<open>
  What the engine answers about the cells of the current row of a statement, by column:
  \<^verbatim>\<open>sqlite3_column_name\<close>, \<^verbatim>\<open>sqlite3_column_type\<close>, \<^verbatim>\<open>sqlite3_column_int\<close>,
  \<^verbatim>\<open>sqlite3_column_int64\<close>, \<^verbatim>\<open>sqlite3_column_double\<close> (the value's 64 bits; the
  wrapper does no arithmetic on it) and \<^verbatim>\<open>sqlite3_column_text\<close>.
\<close>

record row =
  column_name :: "int \<Rightarrow> string"
  column_type :: "int \<Rightarrow> int"
  column_int :: "int \<Rightarrow> c_int"
  column_int64 :: "int \<Rightarrow> int64_t"
  column_double :: "int \<Rightarrow> 64 word"
  column_text :: "int \<Rightarrow> string"

definition numFields :: "SqlStatement \<Rightarrow> int outcome" where
  "numFields p =
     (case mpVM p of
        None \<Rightarrow> Inl (assertion_failed ''mpParent->mpVM != NULL'')
      | Some vm \<Rightarrow> Inr (mColsInResult p))"

definition checkIndex :: "SqlStatement \<Rightarrow> int \<Rightarrow> unit outcome" where
  "checkIndex p nField =
     (if nField < 0 \<or> nField \<ge> mColsInResult p
      then Inl (Throw (SqlDatabaseException ''Invalid column index.''))
      else Inr ())"

definition fieldDataType :: "SqlStatement \<Rightarrow> row \<Rightarrow> int \<Rightarrow> int outcome" where
  "fieldDataType p r nField =
     (case mpVM p of
        None \<Rightarrow> Inl (assertion_failed ''mpParent->mpVM != NULL'')
      | Some vm \<Rightarrow>
          (case checkIndex p nField of
             Inl f \<Rightarrow> Inl f
           | Inr _ \<Rightarrow> Inr (column_type r nField)))"

text \<open>The loop of \<^verbatim>\<open>fieldIndex\<close>, from column \<open>nField\<close> on.\<close>

function fieldIndex_from :: "row \<Rightarrow> string \<Rightarrow> int \<Rightarrow> int \<Rightarrow> int option" where
  "fieldIndex_from r szField cols nField =
     (if nField < cols
      then (if szField = column_name r nField then Some nField
            else fieldIndex_from r szField cols (nField + 1))
      else None)"
  by pat_completeness auto
termination
  by (relation "measure (\<lambda>(r, szField, cols, nField). nat (cols - nField))") auto

declare fieldIndex_from.simps [simp del]

text \<open>The name is a \<^verbatim>\<open>const char*\<close>: \<open>None\<close> is the null pointer.\<close>

definition fieldIndex :: "SqlStatement \<Rightarrow> row \<Rightarrow> string option \<Rightarrow> int outcome" where
  "fieldIndex p r szField =
     (case mpVM p of
        None \<Rightarrow> Inl (assertion_failed ''mpParent->mpVM != NULL'')
      | Some vm \<Rightarrow>
          (case szField of
             None \<Rightarrow> Inl (assertion_failed ''szField != 0'')
           | Some name \<Rightarrow>
               (case fieldIndex_from r name (mColsInResult p) 0 of
                  None \<Rightarrow> Inl (Throw (SqlDatabaseException ''Invalid field name requested''))
                | Some nField \<Rightarrow> Inr nField)))"

definition getIntField :: "SqlStatement \<Rightarrow> row \<Rightarrow> int \<Rightarrow> c_int \<Rightarrow> c_int outcome" where
  "getIntField p r nField nNullValue =
     (case fieldDataType p r nField of
        Inl f \<Rightarrow> Inl f
      | Inr t \<Rightarrow> if t = SQLITE_NULL then Inr nNullValue else Inr (column_int r nField))"

definition getIntField_name ::
  "SqlStatement \<Rightarrow> row \<Rightarrow> string option \<Rightarrow> c_int \<Rightarrow> c_int outcome" where
  "getIntField_name p r szField nNullValue =
     (case fieldIndex p r szField of
        Inl f \<Rightarrow> Inl f
      | Inr nField \<Rightarrow> getIntField p r nField nNullValue)"

text \<open>
  The substitute of \<^verbatim>\<open>getInt64Field\<close> is declared \<^verbatim>\<open>int nNullValue\<close>; it is
  sign-extended to the \<^verbatim>\<open>int64_t\<close> returned.
\<close>

definition getInt64Field ::
  "SqlStatement \<Rightarrow> row \<Rightarrow> int \<Rightarrow> c_int \<Rightarrow> int64_t outcome" where
  "getInt64Field p r nField nNullValue =
     (case fieldDataType p r nField of
        Inl f \<Rightarrow> Inl f
      | Inr t \<Rightarrow>
          if t = SQLITE_NULL then Inr (scast nNullValue) else Inr (column_int64 r nField))"

definition getInt64Field_name ::
  "SqlStatement \<Rightarrow> row \<Rightarrow> string option \<Rightarrow> c_int \<Rightarrow> int64_t outcome" where
  "getInt64Field_name p r szField nNullValue =
     (case fieldIndex p r szField of
        Inl f \<Rightarrow> Inl f
      | Inr nField \<Rightarrow> getInt64Field p r nField nNullValue)"

definition getFloatField :: "SqlStatement \<Rightarrow> row \<Rightarrow> int \<Rightarrow> 64 word \<Rightarrow> 64 word outcome" where
  "getFloatField p r nField fNullValue =
     (case fieldDataType p r nField of
        Inl f \<Rightarrow> Inl f
      | Inr t \<Rightarrow> if t = SQLITE_NULL then Inr fNullValue else Inr (column_double r nField))"

definition getFloatField_name ::
  "SqlStatement \<Rightarrow> row \<Rightarrow> string option \<Rightarrow> 64 word \<Rightarrow> 64 word outcome" where
  "getFloatField_name p r szField fNullValue =
     (case fieldIndex p r szField of
        Inl f \<Rightarrow> Inl f
      | Inr nField \<Rightarrow> getFloatField p r nField fNullValue)"

definition getStringField :: "SqlStatement \<Rightarrow> row \<Rightarrow> int \<Rightarrow> string \<Rightarrow> string outcome" where
  "getStringField p r nField szNullValue =
     (case fieldDataType p r nField of
        Inl f \<Rightarrow> Inl f
      | Inr t \<Rightarrow> if t = SQLITE_NULL then Inr szNullValue else Inr (column_text r nField))"

definition getStringField_name ::
  "SqlStatement \<Rightarrow> row \<Rightarrow> string option \<Rightarrow> string \<Rightarrow> string outcome" where
  "getStringField_name p r szField szNullValue =
     (case fieldIndex p r szField of
        Inl f \<Rightarrow> Inl f
      | Inr nField \<Rightarrow> getStringField p r nField szNullValue)"

text \<open>
  The default arguments the header declares: \<^verbatim>\<open>nNullValue=0\<close>, \<^verbatim>\<open>fNullValue=0.0\<close>
  (all 64 bits zero) and \<^verbatim>\<open>szNullValue=""\<close>.
\<close>

definition nNullValue_default :: c_int where "nNullValue_default = 0"
definition fNullValue_default :: "64 word" where "fNullValue_default = 0"
definition szNullValue_default :: string where "szNullValue_default = []"

subsection \<open>Database connection\<close>

record SqlDatabase =
  mpDB :: "sqlite3 option"
  mnBusyTimeoutMs :: int

text \<open>
  \<^verbatim>\<open>close()\<close>: \<open>rc\<close> is the status \<^verbatim>\<open>sqlite3_close\<close> answers and \<open>msg\<close> the text
  of \<^verbatim>\<open>sqlite3_errmsg\<close>.
\<close>

definition close ::
  "SqlDatabase \<Rightarrow> engine \<Rightarrow> int \<Rightarrow> string \<Rightarrow> unit outcome \<times> SqlDatabase \<times> engine" where
  "close db eng rc msg =
     (case mpDB db of
        None \<Rightarrow> (Inr (), db, eng)
      | Some h \<Rightarrow>
          if sqlite3_next_stmt eng h \<noteq> None
          then (Inl (Throw (SqlDatabaseException
                  ''Tried to close a database before deleting or calling destroy() on all statement objects.'')),
                db, eng)
          else
            let eng1 = sqlite3_close eng h rc in
            if rc \<noteq> SQLITE_OK then (Inl (ThrowStatusCodeException rc msg), db, eng1)
            else (Inr (), db\<lparr>mpDB := None\<rparr>, eng1))"

text \<open>The destructor: \<^verbatim>\<open>try { close(); } catch (...) {}\<close>.\<close>

definition SqlDatabase_destructor ::
  "SqlDatabase \<Rightarrow> engine \<Rightarrow> int \<Rightarrow> string \<Rightarrow> SqlDatabase \<times> engine" where
  "SqlDatabase_destructor db eng rc msg =
     (case close db eng rc msg of
        (Inl f, db1, eng1) \<Rightarrow> (db1, eng1)
      | (Inr _, db1, eng1) \<Rightarrow> (db1, eng1))"

text \<open>
  What the engine answers to \<^verbatim>\<open>sqlite3_prepare_v2\<close>: the status, the statement handle
  written to \<^verbatim>\<open>pVM\<close> (or null), the tail written to \<^verbatim>\<open>szTail\<close> (the rest of the
  text after the first statement, or null) and the text of \<^verbatim>\<open>sqlite3_errmsg\<close>.
\<close>

record prepare_answer =
  prep_result :: int
  ppStmt :: "sqlite3_stmt option"
  pzTail :: "string option"
  prep_errmsg :: string

definition sqlCompile ::
  "SqlDatabase \<Rightarrow> engine \<Rightarrow> string \<Rightarrow> prepare_answer \<Rightarrow> SqlStatement outcome \<times> engine" where
  "sqlCompile db eng szSQL pa =
     (case mpDB db of
        None \<Rightarrow> (Inl (assertion_failed ''mpDB != NULL''), eng)
      | Some h \<Rightarrow>
          let eng1 = sqlite3_prepare_v2 eng h szSQL (ppStmt pa) in
          (case pzTail pa of
             None \<Rightarrow> (Inl (assertion_failed ''szTail != 0''), eng1)
           | Some szTail \<Rightarrow>
               let extra_statements = (szTail \<noteq> []) in
               if prep_result pa \<noteq> SQLITE_OK
               then (Inl (ThrowStatusCodeException (prep_result pa) (prep_errmsg pa)), eng1)
               else if extra_statements
               then (Inl (Throw (SqlDatabaseException
                       ''sqlCompile() only compiles the first statement; other statements have been ignored.'')),
                     eng1)
               else (Inr (SqlStatement_new (ppStmt pa)), eng1)))"

text \<open>
  \<^verbatim>\<open>sqlQueryVar\<close>: \<open>vmprintf\<close> is what \<^verbatim>\<open>sqlite3_vmprintf\<close> answers for a format
  with the caller's arguments (\<open>None\<close> when it cannot allocate). The temporary
  statement is finalized by its destructor when \<^verbatim>\<open>execute()\<close> throws; otherwise its
  handle moves to the statement returned.
\<close>

definition sqlQueryVar ::
  "SqlDatabase \<Rightarrow> engine \<Rightarrow> (string \<Rightarrow> string option) \<Rightarrow> string \<Rightarrow> prepare_answer \<Rightarrow> step_answer
     \<Rightarrow> SqlStatement outcome \<times> engine" where
  "sqlQueryVar db eng vmprintf szSQL pa sa =
     (case mpDB db of
        None \<Rightarrow> (Inl (assertion_failed ''mpDB != NULL''), eng)
      | Some h \<Rightarrow>
          (case vmprintf szSQL of
             None \<Rightarrow> (Inl (Throw (SqlDatabaseException ''Unable to apply format to SQL string'')), eng)
           | Some szSqlFormatted \<Rightarrow>
               let eng1 = sqlite3_prepare_v2 eng h szSqlFormatted (ppStmt pa) in
               (case pzTail pa of
                  None \<Rightarrow> (Inl (assertion_failed ''szTail != 0''), eng1)
                | Some szTail \<Rightarrow>
                    let extra_statements = (szTail \<noteq> []) in
                    if prep_result pa \<noteq> SQLITE_OK
                    then (Inl (ThrowStatusCodeException (prep_result pa) (prep_errmsg pa)), eng1)
                    else if extra_statements
                    then (Inl (Throw (SqlDatabaseException
                            ''sqlQuery() only compiles the first statement; other statements have been ignored.'')),
                          eng1)
                    else
                      (case execute (SqlStatement_new (ppStmt pa)) eng1 sa of
                         (Inl f, tmp, eng2) \<Rightarrow> (Inl f, snd (destroy tmp eng2))
                       | (Inr _, tmp, eng2) \<Rightarrow> (Inr tmp, eng2)))))"

definition sqlQuery ::
  "SqlDatabase \<Rightarrow> engine \<Rightarrow> (string \<Rightarrow> string option) \<Rightarrow> string \<Rightarrow> prepare_answer \<Rightarrow> step_answer
     \<Rightarrow> SqlStatement outcome \<times> engine" where
  "sqlQuery db eng vmprintf szSQL pa sa = sqlQueryVar db eng vmprintf szSQL pa sa"

text \<open>
  \<^verbatim>\<open>getScalar\<close>: the statement \<^verbatim>\<open>q\<close> is local, so its destructor runs on every way
  out. \<^verbatim>\<open>getIntField(0)\<close> takes the default substitute.
\<close>

definition getScalar ::
  "SqlDatabase \<Rightarrow> engine \<Rightarrow> (string \<Rightarrow> string option) \<Rightarrow> string \<Rightarrow> c_int \<Rightarrow> prepare_answer
     \<Rightarrow> step_answer \<Rightarrow> row \<Rightarrow> c_int outcome \<times> engine" where
  "getScalar db eng vmprintf szSQL errorValue pa sa r =
     (case sqlQuery db eng vmprintf szSQL pa sa of
        (Inl f, eng1) \<Rightarrow> (Inl f, eng1)
      | (Inr q, eng1) \<Rightarrow>
          let ret =
            (if \<not> hasRow q then Inr errorValue
             else
               (case currentRow q of
                  Inl f \<Rightarrow> Inl f
                | Inr v \<Rightarrow>
                    (case numFields v of
                       Inl f \<Rightarrow> Inl f
                     | Inr n \<Rightarrow>
                         if n < 1 then Inr errorValue
                         else
                           (case currentRow q of
                              Inl f \<Rightarrow> Inl f
                            | Inr v' \<Rightarrow> getIntField v' r 0 nNullValue_default))))
          in (ret, snd (destroy q eng1)))"

text \<open>
  \<^verbatim>\<open>tableExists\<close>: \<^verbatim>\<open>sprintf\<close> writes the formatted text and a terminating zero into
  \<^verbatim>\<open>char szSQL[128]\<close>; a longer text is written past the end of the array. The
  comparison \<^verbatim>\<open>nRet > 0\<close> is signed.
\<close>

definition szSQL_size :: nat where "szSQL_size = 128"

definition tableExists_format :: "string \<Rightarrow> string" where
  "tableExists_format szTable =
     ''SELECT COUNT(*) FROM sqlite_master WHERE type='' @ [CHR 0x27] @ ''table'' @ [CHR 0x27]
       @ '' AND name='' @ [CHR 0x27] @ szTable @ [CHR 0x27]"

definition sprintf_bytes :: "string \<Rightarrow> nat" where
  "sprintf_bytes s = length s + 1"

definition tableExists ::
  "SqlDatabase \<Rightarrow> engine \<Rightarrow> (string \<Rightarrow> string option) \<Rightarrow> string \<Rightarrow> prepare_answer
     \<Rightarrow> step_answer \<Rightarrow> row \<Rightarrow> bool outcome \<times> engine" where
  "tableExists db eng vmprintf szTable pa sa r =
     (let szSQL = tableExists_format szTable in
      if szSQL_size < sprintf_bytes szSQL then (Inl UndefinedBehaviour, eng)
      else
        (case getScalar db eng vmprintf szSQL (- 1) pa sa r of
           (Inl f, eng1) \<Rightarrow> (Inl f, eng1)
         | (Inr nRet, eng1) \<Rightarrow> (Inr (sint nRet > 0), eng1)))"

subsection \<open>Copying\<close>

text \<open>
  The copy constructors and assignment operators take their source by reference and
  write to two objects that may be the same one, so they are modelled over a store of
  objects by address.
\<close>

type_synonym 'a store = "nat \<Rightarrow> 'a"

definition SqlStatement_copy ::
  "SqlStatement store \<Rightarrow> nat \<Rightarrow> nat \<Rightarrow> SqlStatement store" where
  "SqlStatement_copy st this rStatement =
     (let st1 = st(this :=
            \<lparr>mpVM = mpVM (st rStatement), mBindNext = mBindNext (st rStatement),
             mEndOfRows = mEndOfRows (st rStatement),
             mColsInResult = mColsInResult (st rStatement)\<rparr>)
      in st1(rStatement := (st1 rStatement)\<lparr>mpVM := None\<rparr>))"

definition SqlStatement_assign ::
  "SqlStatement store \<Rightarrow> engine \<Rightarrow> nat \<Rightarrow> nat \<Rightarrow> SqlStatement store \<times> engine" where
  "SqlStatement_assign st eng this rStatement =
     (case destroy (st this) eng of
        (s0, eng1) \<Rightarrow>
          let st0 = st(this := s0);
              st1 = st0(this := (st0 this)\<lparr>mpVM := mpVM (st0 rStatement)\<rparr>);
              st2 = st1(this := (st1 this)\<lparr>mBindNext := mBindNext (st1 rStatement)\<rparr>);
              st3 = st2(this := (st2 this)\<lparr>mEndOfRows := mEndOfRows (st2 rStatement)\<rparr>);
              st4 = st3(this := (st3 this)\<lparr>mColsInResult := mColsInResult (st3 rStatement)\<rparr>);
              st5 = st4(rStatement := (st4 rStatement)\<lparr>mpVM := None\<rparr>)
          in (st5, eng1))"

text \<open>The destructor of a statement is \<^verbatim>\<open>destroy()\<close>.\<close>

definition SqlStatement_destructor :: "SqlStatement \<Rightarrow> engine \<Rightarrow> SqlStatement \<times> engine" where
  "SqlStatement_destructor s eng = destroy s eng"

definition SqlDatabase_copy :: "SqlDatabase store \<Rightarrow> nat \<Rightarrow> nat \<Rightarrow> SqlDatabase store" where
  "SqlDatabase_copy st this db =
     st(this := \<lparr>mpDB = mpDB (st db), mnBusyTimeoutMs = 60000\<rparr>)"

definition SqlDatabase_assign :: "SqlDatabase store \<Rightarrow> nat \<Rightarrow> nat \<Rightarrow> SqlDatabase store" where
  "SqlDatabase_assign st this db =
     (let st1 = st(this := (st this)\<lparr>mpDB := mpDB (st db)\<rparr>)
      in st1(this := (st1 this)\<lparr>mnBusyTimeoutMs := 60000\<rparr>))"

subsection \<open>The error names of the specification\<close>

text \<open>
  The code has two exception classes and tells failures apart by the reason text. The
  specification names the failures; each name stands for the exception with the reason
  the code gives it.
\<close>

definition InvalidState :: exn where
  "InvalidState = SqlDatabaseException ''called currentRow() after reaching end of rows''"

definition FieldNotFound :: exn where
  "FieldNotFound = SqlDatabaseException ''Invalid field name requested''"

definition MultipleStatements :: exn where
  "MultipleStatements = SqlDatabaseException
     ''sqlCompile() only compiles the first statement; other statements have been ignored.''"

definition StatementsStillOpen :: exn where
  "StatementsStillOpen = SqlDatabaseException
     ''Tried to close a database before deleting or calling destroy() on all statement objects.''"

text \<open>
  The state a statement is in once its previous result is discarded: no current row,
  no columns, \<^verbatim>\<open>numFields()\<close> answering 0 and \<^verbatim>\<open>currentRow()\<close> refusing.
\<close>

definition result_discarded :: "SqlStatement \<Rightarrow> bool" where
  "result_discarded s =
     (\<not> hasRow s \<and> mColsInResult s = 0 \<and> numFields s = Inr 0 \<and>
      currentRow s = Inl (Throw InvalidState))"

subsection \<open>Conditions the specification words\<close>

text \<open>
  The specification's condition for MultipleStatements, in its words: non-whitespace
  text remains after the first statement. Whitespace is what C's \<^verbatim>\<open>isspace\<close> accepts.
\<close>

definition isspace :: "char \<Rightarrow> bool" where
  "isspace c = (c \<in> set [CHR 0x20, CHR 0x09, CHR 0x0A, CHR 0x0B, CHR 0x0C, CHR 0x0D])"

definition remains_non_whitespace :: "string \<Rightarrow> bool" where
  "remains_non_whitespace szTail = list_ex (\<lambda>c. \<not> isspace c) szTail"

text \<open>The destructors of a list of statements, run one after the other.\<close>

definition destroy_all :: "SqlStatement list \<Rightarrow> engine \<Rightarrow> engine" where
  "destroy_all ss eng = fold (\<lambda>s e. snd (destroy s e)) ss eng"

subsection \<open>Example objects\<close>

text \<open>
  One connection (handle 1) with one prepared statement (handle 3), and the states the
  statement passes through when a two-column row is stepped and slot 1 is bound again.
\<close>

definition eng0 :: engine where
  "eng0 = \<lparr>stmts = [(3, 1)], conns = [1], calls = []\<rparr>"

definition stmt0 :: SqlStatement where
  "stmt0 = \<lparr>mpVM = Some 3, mBindNext = 1, mEndOfRows = True, mColsInResult = 0\<rparr>"

definition stmt_row :: SqlStatement where
  "stmt_row = \<lparr>mpVM = Some 3, mBindNext = 1, mEndOfRows = False, mColsInResult = 2\<rparr>"

definition stmt_rebound :: SqlStatement where
  "stmt_rebound = \<lparr>mpVM = Some 3, mBindNext = 2, mEndOfRows = True, mColsInResult = 0\<rparr>"

definition eng_row :: engine where
  "eng_row = \<lparr>stmts = [(3, 1)], conns = [1], calls = [Step 3]\<rparr>"

definition eng_rebound :: engine where
  "eng_rebound =
     \<lparr>stmts = [(3, 1)], conns = [1], calls = [Step 3, Reset 3, Bind (Some 3) 1 (BindInt 7)]\<rparr>"

definition row_answer :: step_answer where
  "row_answer = \<lparr>result = 100, column_count = 2, errmsg = []\<rparr>"

definition misuse_answer :: step_answer where
  "misuse_answer = \<lparr>result = 21, column_count = 0, errmsg = []\<rparr>"

definition done_answer :: step_answer where
  "done_answer = \<lparr>result = 101, column_count = 0, errmsg = []\<rparr>"

definition busy_answer :: step_answer where
  "busy_answer = \<lparr>result = 5, column_count = 0, errmsg = ''database is locked''\<rparr>"

definition error_answer :: step_answer where
  "error_answer = \<lparr>result = 1, column_count = 0, errmsg = ''no such table: t''\<rparr>"

definition stmt_store :: "SqlStatement store" where
  "stmt_store = (\<lambda>a. if a = 1 then stmt_row else SqlStatement_new None)"

text \<open>
  The connection, open and closed, alone in the engine, and as the object at address 1
  of a store whose other objects hold no handle and a busy timeout of 5.
\<close>

definition db1 :: SqlDatabase where
  "db1 = \<lparr>mpDB = Some 1, mnBusyTimeoutMs = 60000\<rparr>"

definition db_closed :: SqlDatabase where
  "db_closed = \<lparr>mpDB = None, mnBusyTimeoutMs = 60000\<rparr>"

definition eng_idle :: engine where
  "eng_idle = \<lparr>stmts = [], conns = [1], calls = []\<rparr>"

definition db_unset :: SqlDatabase where
  "db_unset = \<lparr>mpDB = None, mnBusyTimeoutMs = 5\<rparr>"

definition db_store :: "SqlDatabase store" where
  "db_store = (\<lambda>a. if a = 1 then db1 else db_unset)"

text \<open>
  What the engine answers when it prepares \<^verbatim>\<open>"SELECT 1; "\<close> (the tail is the blank
  after the semicolon) and \<^verbatim>\<open>"SELECT 1;"\<close> (the tail is empty).
\<close>

definition select_then_space :: prepare_answer where
  "select_then_space =
     \<lparr>prep_result = 0, ppStmt = Some 3, pzTail = Some '' '', prep_errmsg = []\<rparr>"

definition select_exact :: prepare_answer where
  "select_exact = \<lparr>prep_result = 0, ppStmt = Some 3, pzTail = Some [], prep_errmsg = []\<rparr>"

text \<open>
  A row of two columns, \<^verbatim>\<open>id\<close> holding the integer 42 and \<^verbatim>\<open>name\<close> holding NULL;
  and the one row of a \<^verbatim>\<open>COUNT(*)\<close> that matched nothing.
\<close>

definition null_row :: row where
  "null_row =
     \<lparr>column_name = (\<lambda>i. if i = 0 then ''id'' else ''name''),
      column_type = (\<lambda>i. if i = 0 then 1 else 5),
      column_int = (\<lambda>i. if i = 0 then 42 else 0),
      column_int64 = (\<lambda>i. if i = 0 then 42 else 0),
      column_double = (\<lambda>i. 0),
      column_text = (\<lambda>i. if i = 0 then ''42'' else [])\<rparr>"

definition count_row :: row where
  "count_row =
     \<lparr>column_name = (\<lambda>i. ''COUNT(*)''),
      column_type = (\<lambda>i. 1),
      column_int = (\<lambda>i. 0),
      column_int64 = (\<lambda>i. 0),
      column_double = (\<lambda>i. 0),
      column_text = (\<lambda>i. ''0'')\<rparr>"

definition count_answer :: step_answer where
  "count_answer = \<lparr>result = 100, column_count = 1, errmsg = []\<rparr>"

text \<open>The formatter on a text without format directives.\<close>

definition no_format :: "string \<Rightarrow> string option" where
  "no_format szSQL = Some szSQL"

text \<open>
  The formatter on \<^verbatim>\<open>"SELECT 7 % 4"\<close> with no arguments: the text ends inside the
  directive that \<^verbatim>\<open>%\<close> opens, and the formatter stops there. The row the engine
  then gives for the text it was handed, \<^verbatim>\<open>"SELECT 7 "\<close>, holds 7.
\<close>

definition format_modulo :: "string \<Rightarrow> string option" where
  "format_modulo szSQL = (if szSQL = ''SELECT 7 % 4'' then Some ''SELECT 7 '' else Some szSQL)"

definition seven_row :: row where
  "seven_row =
     \<lparr>column_name = (\<lambda>i. ''7''),
      column_type = (\<lambda>i. 1),
      column_int = (\<lambda>i. 7),
      column_int64 = (\<lambda>i. 7),
      column_double = (\<lambda>i. 0),
      column_text = (\<lambda>i. ''7'')\<rparr>"

section \<open>Properties\<close>

subsection \<open>Status codes\<close>

lemma length_code_descr: "length code_descr = 27"
  by (simp add: code_descr_def)

lemma subscript_code_descr:
  "subscript code_descr c = (if 0 \<le> c \<and> c < 27 then Some (code_descr ! nat c) else None)"
  by (simp add: subscript_def code_descr_def)

lemma ThrowStatusCodeException_cases:
  "ThrowStatusCodeException c m =
     (if c = 5 then Throw SqlDatabaseBusyException
      else if c = 1 then Throw (SqlDatabaseException m)
      else if c < 0 then UndefinedBehaviour
      else if c < 27
      then Throw (SqlDatabaseException
             (''Result code '' @ show_int c @ '' ('' @ code_descr ! nat c @ '')''))
      else Throw (SqlDatabaseException (''Result code '' @ show_int c)))"
  by (simp add: ThrowStatusCodeException_def subscript_code_descr SQLITE_BUSY_def
      SQLITE_ERROR_def Let_def)
    (simp add: code_descr_def)

lemma ThrowStatusCodeException_throws:
  "0 \<le> c \<Longrightarrow> \<exists>e. ThrowStatusCodeException c m = Throw e"
  by (simp add: ThrowStatusCodeException_cases)

text \<open>
  C8, as the code has it. For every status code that is not negative (the engine
  returns no other) and is neither \<^verbatim>\<open>SQLITE_BUSY\<close> nor \<^verbatim>\<open>SQLITE_ERROR\<close>, the
  exception's message is \<^verbatim>\<open>Result code N\<close> followed by the name from the 27-entry
  table in parentheses when the code is below 27, and the bare \<^verbatim>\<open>Result code N\<close>
  from 27 on. For these codes the table is read only at an index inside it, and the
  call never leaves defined behaviour.
\<close>

theorem status_code_message:
  assumes "0 \<le> statusCode" "statusCode \<noteq> SQLITE_BUSY" "statusCode \<noteq> SQLITE_ERROR"
  shows "length code_descr = 27 \<and>
         (statusCode < 27 \<longrightarrow>
            nat statusCode < length code_descr \<and>
            subscript code_descr statusCode = Some (code_descr ! nat statusCode) \<and>
            ThrowStatusCodeException statusCode msg =
              Throw (SqlDatabaseException
                (''Result code '' @ show_int statusCode @ '' ('' @ code_descr ! nat statusCode
                   @ '')''))) \<and>
         (27 \<le> statusCode \<longrightarrow>
            ThrowStatusCodeException statusCode msg =
              Throw (SqlDatabaseException (''Result code '' @ show_int statusCode))) \<and>
         ThrowStatusCodeException statusCode msg \<noteq> UndefinedBehaviour"
  using assms
  by (auto simp: ThrowStatusCodeException_cases subscript_code_descr length_code_descr
      SQLITE_BUSY_def SQLITE_ERROR_def)

lemma show_int_examples: "show_int 21 = ''21''" "show_int 100 = ''100''"
  by (simp_all add: show_int_def digits.simps)

theorem status_code_message_witness:
  "(0::int) \<le> 21 \<and> 21 \<noteq> SQLITE_BUSY \<and> 21 \<noteq> SQLITE_ERROR \<and>
   ThrowStatusCodeException 21 [] =
     Throw (SqlDatabaseException ''Result code 21 (SQLITE_MISUSE)'') \<and>
   (0::int) \<le> 100 \<and> 100 \<noteq> SQLITE_BUSY \<and> 100 \<noteq> SQLITE_ERROR \<and>
   ThrowStatusCodeException 100 [] = Throw (SqlDatabaseException ''Result code 100'')"
proof -
  have a: "(0::int) \<le> 21" "21 \<noteq> SQLITE_BUSY" "21 \<noteq> SQLITE_ERROR"
    and b: "(0::int) \<le> 100" "100 \<noteq> SQLITE_BUSY" "100 \<noteq> SQLITE_ERROR"
    by (simp_all add: SQLITE_BUSY_def SQLITE_ERROR_def)
  have n: "code_descr ! 21 = ''SQLITE_MISUSE''"
    by (simp add: code_descr_def)
  from status_code_message [OF a, of "[]"] status_code_message [OF b, of "[]"] a b
  show ?thesis
    by (simp add: show_int_examples n)
qed

text \<open>
  The claim as stated fails on the negative codes it names: the guard before the table
  lookup is \<^verbatim>\<open>statusCode < 27\<close> alone, so at \<open>statusCode = -1\<close> the guard holds,
  the subscript is outside the array, and the call ends in undefined behaviour instead
  of an exception with the bare number.
\<close>

theorem ThrowStatusCodeException_negative_code:
  "(- 1 :: int) < int (length code_descr) \<and>
   subscript code_descr (- 1) = None \<and>
   ThrowStatusCodeException (- 1) [] = UndefinedBehaviour"
  by (simp add: ThrowStatusCodeException_cases subscript_code_descr)

subsection \<open>Executing and stepping\<close>

lemma execute_Some:
  "mpVM s = Some vm \<Longrightarrow>
   execute s eng a =
     (if result a = SQLITE_DONE
      then (Inr (), s\<lparr>mBindNext := 1, mEndOfRows := True, mColsInResult := 0\<rparr>,
            sqlite3_step (if hasRow s then sqlite3_reset eng vm else eng) vm)
      else if result a = SQLITE_ROW
      then (Inr (), s\<lparr>mBindNext := 1, mEndOfRows := False, mColsInResult := column_count a\<rparr>,
            sqlite3_step (if hasRow s then sqlite3_reset eng vm else eng) vm)
      else (Inl (ThrowStatusCodeException (result a) (errmsg a)), s\<lparr>mBindNext := 1\<rparr>,
            sqlite3_step (if hasRow s then sqlite3_reset eng vm else eng) vm))"
  by (simp add: execute_def hasRow_def Let_def)

lemma calls_step_reset:
  "calls (sqlite3_step (if b then sqlite3_reset eng vm else eng) vm) =
     calls eng @ (if b then [Reset vm, Step vm] else [Step vm])"
  by (simp add: sqlite3_step_def sqlite3_reset_def)

text \<open>
  C4. On a statement with a live handle, \<^verbatim>\<open>execute()\<close> leaves the bind cursor at 1,
  calls the engine's reset exactly when a row was current before the call and then
  steps exactly once. On "done" it returns with no row and column count 0; on "row" it
  returns with a row and the engine's column count; on any other status it ends in
  \<^verbatim>\<open>ThrowStatusCodeException\<close> with the row flag and the column count as they were.
  The exception is keyed by the status: the busy exception for \<^verbatim>\<open>SQLITE_BUSY\<close> and
  for no other status, the engine's own message for \<^verbatim>\<open>SQLITE_ERROR\<close>, and
  \<^verbatim>\<open>Result code N\<close> (with the table's name below 27) for every other status the
  engine can answer (they are not negative).
\<close>

theorem execute_outcomes:
  assumes vm: "mpVM s = Some vm"
    and ex: "execute s eng a = (r, s', eng')"
  shows "mBindNext s' = 1 \<and>
         calls eng' = calls eng @ (if hasRow s then [Reset vm, Step vm] else [Step vm]) \<and>
         (result a = SQLITE_DONE \<longrightarrow> r = Inr () \<and> \<not> hasRow s' \<and> mColsInResult s' = 0) \<and>
         (result a = SQLITE_ROW \<longrightarrow>
            r = Inr () \<and> hasRow s' \<and> mColsInResult s' = column_count a) \<and>
         (result a \<noteq> SQLITE_DONE \<and> result a \<noteq> SQLITE_ROW \<longrightarrow>
            r = Inl (ThrowStatusCodeException (result a) (errmsg a)) \<and>
            (0 \<le> result a \<longrightarrow> (\<exists>e. r = Inl (Throw e))) \<and>
            hasRow s' = hasRow s \<and> mColsInResult s' = mColsInResult s) \<and>
         (result a = SQLITE_BUSY \<longrightarrow> r = Inl (Throw SqlDatabaseBusyException)) \<and>
         (result a = SQLITE_ERROR \<longrightarrow> r = Inl (Throw (SqlDatabaseException (errmsg a)))) \<and>
         (0 \<le> result a \<and> result a \<noteq> SQLITE_DONE \<and> result a \<noteq> SQLITE_ROW \<and>
          result a \<noteq> SQLITE_BUSY \<and> result a \<noteq> SQLITE_ERROR \<longrightarrow>
            r = Inl (Throw (SqlDatabaseException
                  (''Result code '' @ show_int (result a) @
                   (if result a < 27 then '' ('' @ code_descr ! nat (result a) @ '')''
                    else [])))))"
proof -
  have e: "eng' = sqlite3_step (if hasRow s then sqlite3_reset eng vm else eng) vm"
    using ex by (simp add: execute_Some [OF vm] split: if_splits)
  have c: "calls eng' = calls eng @ (if hasRow s then [Reset vm, Step vm] else [Step vm])"
    unfolding e by (rule calls_step_reset)
  have b: "mBindNext s' = 1"
    using ex by (auto simp: execute_Some [OF vm] split: if_splits)
  have d: "result a = SQLITE_DONE \<longrightarrow> r = Inr () \<and> \<not> hasRow s' \<and> mColsInResult s' = 0"
    using ex by (auto simp: execute_Some [OF vm] hasRow_def)
  have w: "result a = SQLITE_ROW \<longrightarrow>
            r = Inr () \<and> hasRow s' \<and> mColsInResult s' = column_count a"
    using ex by (auto simp: execute_Some [OF vm] hasRow_def SQLITE_ROW_def SQLITE_DONE_def)
  have o: "result a \<noteq> SQLITE_DONE \<and> result a \<noteq> SQLITE_ROW \<longrightarrow>
            r = Inl (ThrowStatusCodeException (result a) (errmsg a)) \<and>
            (0 \<le> result a \<longrightarrow> (\<exists>e. r = Inl (Throw e))) \<and>
            hasRow s' = hasRow s \<and> mColsInResult s' = mColsInResult s"
    using ex ThrowStatusCodeException_throws [of "result a" "errmsg a"]
    by (auto simp: execute_Some [OF vm] hasRow_def)
  have y: "result a = SQLITE_BUSY \<longrightarrow> r = Inl (Throw SqlDatabaseBusyException)"
    using ex by (auto simp: execute_Some [OF vm] ThrowStatusCodeException_def
        SQLITE_BUSY_def SQLITE_DONE_def SQLITE_ROW_def)
  have g: "result a = SQLITE_ERROR \<longrightarrow> r = Inl (Throw (SqlDatabaseException (errmsg a)))"
    using ex by (auto simp: execute_Some [OF vm] ThrowStatusCodeException_def
        SQLITE_BUSY_def SQLITE_ERROR_def SQLITE_DONE_def SQLITE_ROW_def)
  have k: "0 \<le> result a \<and> result a \<noteq> SQLITE_DONE \<and> result a \<noteq> SQLITE_ROW \<and>
          result a \<noteq> SQLITE_BUSY \<and> result a \<noteq> SQLITE_ERROR \<longrightarrow>
            r = Inl (Throw (SqlDatabaseException
                  (''Result code '' @ show_int (result a) @
                   (if result a < 27 then '' ('' @ code_descr ! nat (result a) @ '')''
                    else []))))"
    using ex by (auto simp: execute_Some [OF vm] ThrowStatusCodeException_cases
        SQLITE_BUSY_def SQLITE_ERROR_def)
  from b c d w o y g k show ?thesis by blast
qed

lemma execute_examples:
  "execute stmt_row eng0 row_answer = (Inr (), stmt_row, eng0\<lparr>calls := [Reset 3, Step 3]\<rparr>)"
  "execute stmt_row eng0 done_answer = (Inr (), stmt0, eng0\<lparr>calls := [Reset 3, Step 3]\<rparr>)"
  "execute stmt0 eng0 busy_answer =
     (Inl (Throw SqlDatabaseBusyException), stmt0, eng0\<lparr>calls := [Step 3]\<rparr>)"
  "execute stmt0 eng0 error_answer =
     (Inl (Throw (SqlDatabaseException ''no such table: t'')), stmt0, eng0\<lparr>calls := [Step 3]\<rparr>)"
  "execute stmt0 eng0 misuse_answer =
     (Inl (Throw (SqlDatabaseException ''Result code 21 (SQLITE_MISUSE)'')), stmt0,
      eng0\<lparr>calls := [Step 3]\<rparr>)"
  by (simp_all add: execute_def row_answer_def done_answer_def busy_answer_def error_answer_def
      misuse_answer_def SQLITE_DONE_def SQLITE_ROW_def stmt_row_def stmt0_def eng0_def
      sqlite3_step_def sqlite3_reset_def Let_def ThrowStatusCodeException_cases
      show_int_def digits.simps code_descr_def)

theorem execute_outcomes_witness:
  "mpVM stmt_row = Some 3 \<and> mpVM stmt0 = Some 3 \<and>
   execute stmt_row eng0 row_answer = (Inr (), stmt_row, eng0\<lparr>calls := [Reset 3, Step 3]\<rparr>) \<and>
   mBindNext stmt_row = 1 \<and> hasRow stmt_row \<and> mColsInResult stmt_row = 2 \<and>
   execute stmt_row eng0 done_answer = (Inr (), stmt0, eng0\<lparr>calls := [Reset 3, Step 3]\<rparr>) \<and>
   \<not> hasRow stmt0 \<and> mColsInResult stmt0 = 0 \<and>
   execute stmt0 eng0 busy_answer =
     (Inl (Throw SqlDatabaseBusyException), stmt0, eng0\<lparr>calls := [Step 3]\<rparr>) \<and>
   execute stmt0 eng0 error_answer =
     (Inl (Throw (SqlDatabaseException ''no such table: t'')), stmt0, eng0\<lparr>calls := [Step 3]\<rparr>) \<and>
   execute stmt0 eng0 misuse_answer =
     (Inl (Throw (SqlDatabaseException ''Result code 21 (SQLITE_MISUSE)'')), stmt0,
      eng0\<lparr>calls := [Step 3]\<rparr>)"
proof -
  have h1: "mpVM stmt_row = Some 3" and h0: "mpVM stmt0 = Some 3"
    by (simp_all add: stmt_row_def stmt0_def)
  note x = execute_examples
  have a: "mBindNext stmt_row = 1 \<and> hasRow stmt_row \<and> mColsInResult stmt_row = 2"
    using execute_outcomes [OF h1 x(1)] by (simp add: row_answer_def SQLITE_ROW_def)
  have b: "\<not> hasRow stmt0 \<and> mColsInResult stmt0 = 0"
    using execute_outcomes [OF h1 x(2)] by (simp add: done_answer_def SQLITE_DONE_def)
  from a b h1 h0 x show ?thesis by simp
qed

lemma nextRow_error:
  assumes "mpVM s = Some vm" "hasRow s" "result a \<noteq> SQLITE_DONE" "result a \<noteq> SQLITE_ROW"
  shows "nextRow s eng a =
           (Inl (ThrowStatusCodeException (result a) (errmsg a)), s, sqlite3_step eng vm)"
  using assms by (simp add: nextRow_def hasRow_def Let_def)

text \<open>
  C10. When a row is current and the step inside \<^verbatim>\<open>nextRow()\<close> answers a status that
  is neither "done" nor "row", the call ends in \<^verbatim>\<open>ThrowStatusCodeException\<close> (an
  exception for every status that is not negative) after one step of the engine, and
  the statement is left exactly as it was: \<^verbatim>\<open>hasRow()\<close> is still true.
\<close>

theorem nextRow_error_keeps_state:
  assumes "mpVM s = Some vm" "hasRow s" "result a \<noteq> SQLITE_DONE" "result a \<noteq> SQLITE_ROW"
    and "nextRow s eng a = (r, s', eng')"
  shows "r = Inl (ThrowStatusCodeException (result a) (errmsg a)) \<and>
         (0 \<le> result a \<longrightarrow> (\<exists>e. r = Inl (Throw e))) \<and>
         s' = s \<and> hasRow s' \<and> calls eng' = calls eng @ [Step vm]"
  using assms ThrowStatusCodeException_throws [of "result a" "errmsg a"]
  by (auto simp: nextRow_error sqlite3_step_def)

theorem nextRow_error_keeps_state_witness:
  "mpVM stmt_row = Some 3 \<and> hasRow stmt_row \<and>
   result misuse_answer \<noteq> SQLITE_DONE \<and> result misuse_answer \<noteq> SQLITE_ROW \<and>
   nextRow stmt_row eng_row misuse_answer =
     (Inl (Throw (SqlDatabaseException ''Result code 21 (SQLITE_MISUSE)'')), stmt_row,
      eng_row\<lparr>calls := [Step 3, Step 3]\<rparr>)"
proof -
  have h1: "mpVM stmt_row = Some 3" and h2: "hasRow stmt_row"
    by (simp_all add: stmt_row_def hasRow_def)
  have h3: "result misuse_answer \<noteq> SQLITE_DONE" and h4: "result misuse_answer \<noteq> SQLITE_ROW"
    by (simp_all add: misuse_answer_def SQLITE_DONE_def SQLITE_ROW_def)
  have t: "ThrowStatusCodeException 21 [] =
             Throw (SqlDatabaseException ''Result code 21 (SQLITE_MISUSE)'')"
    by (simp add: ThrowStatusCodeException_cases show_int_def digits.simps code_descr_def)
  have h5: "nextRow stmt_row eng_row misuse_answer =
              (Inl (Throw (SqlDatabaseException ''Result code 21 (SQLITE_MISUSE)'')), stmt_row,
               eng_row\<lparr>calls := [Step 3, Step 3]\<rparr>)"
    by (simp add: nextRow_error [OF h1 h2 h3 h4] t sqlite3_step_def eng_row_def)
      (simp add: misuse_answer_def t)
  from nextRow_error_keeps_state [OF h1 h2 h3 h4 h5] h1 h2 h3 h4 h5 show ?thesis
    by simp
qed

subsection \<open>Binding again after a result\<close>

lemma onBind_first:
  "mpVM s = Some vm \<Longrightarrow> mBindNext s = 1 \<Longrightarrow>
   onBind s eng = (Inr (), s\<lparr>mEndOfRows := True, mColsInResult := 0\<rparr>, sqlite3_reset eng vm)"
  by (simp add: onBind_def)

lemma execute_Inr:
  assumes "execute s eng a = (Inr (), s1, eng1)"
  shows "\<exists>vm. mpVM s1 = Some vm \<and> mBindNext s1 = 1"
proof (cases "mpVM s")
  case None
  with assms show ?thesis by (simp add: execute_def assertion_failed_def)
next
  case (Some vm)
  with assms show ?thesis by (auto simp: execute_Some [OF Some] split: if_splits)
qed

lemma bind_first:
  assumes "mpVM s = Some vm" "mBindNext s = 1"
  shows "bind s eng v rc =
           ((if rc \<noteq> SQLITE_OK then Inl (Throw (SqlDatabaseException (bind_reason v)))
             else Inr ()),
            s\<lparr>mEndOfRows := True, mColsInResult := 0, mBindNext := 2\<rparr>,
            sqlite3_bind (sqlite3_reset eng vm) (Some vm) 1 v)"
  using assms by (simp add: bind_def onBind_first Let_def)

lemma bindSame_first:
  assumes "mpVM s = Some vm" "mBindNext s = 1"
  shows "bindSame s eng =
           (Inr (), s\<lparr>mEndOfRows := True, mColsInResult := 0, mBindNext := 2\<rparr>,
            sqlite3_reset eng vm)"
  using assms by (simp add: bindSame_def onBind_first)

lemma result_discarded_cleared:
  "mpVM s = Some vm \<Longrightarrow>
   result_discarded (s\<lparr>mEndOfRows := True, mColsInResult := 0, mBindNext := 2\<rparr>)"
  by (simp add: result_discarded_def hasRow_def numFields_def currentRow_def InvalidState_def)

text \<open>
  C2, as the code has it. After a successful \<^verbatim>\<open>execute()\<close>, binding slot 1 again
  with any of the \<^verbatim>\<open>bind\<close> overloads, \<^verbatim>\<open>bindNull()\<close> or \<^verbatim>\<open>bindSame()\<close>, whatever
  the engine answers to the bind, discards the previous result: no row is current and
  the column count is 0. Before a new \<^verbatim>\<open>execute()\<close>, \<^verbatim>\<open>currentRow()\<close> fails with
  InvalidState, so \<^verbatim>\<open>numFields()\<close> cannot be reached through it, and \<^verbatim>\<open>numFields()\<close>
  called on a row view kept from before returns 0, not the stale count, and does not
  fail.
\<close>

theorem rebind_discards_result:
  assumes "execute s eng a = (Inr (), s1, eng1)"
  shows "result_discarded (fst (snd (bind s1 eng1 v rc))) \<and>
         result_discarded (fst (snd (bindSame s1 eng1)))"
proof -
  obtain vm where "mpVM s1 = Some vm" "mBindNext s1 = 1"
    using execute_Inr [OF assms] by blast
  then show ?thesis
    by (simp add: bind_first bindSame_first result_discarded_cleared)
qed

lemma execute_stmt0_row: "execute stmt0 eng0 row_answer = (Inr (), stmt_row, eng_row)"
  by (simp add: execute_def stmt0_def eng0_def row_answer_def stmt_row_def eng_row_def
      SQLITE_DONE_def SQLITE_ROW_def sqlite3_step_def Let_def)

lemma bind_stmt_row:
  "bind stmt_row eng_row (BindInt 7) SQLITE_OK = (Inr (), stmt_rebound, eng_rebound)"
  by (simp add: bind_def onBind_def stmt_row_def eng_row_def stmt_rebound_def eng_rebound_def
      sqlite3_reset_def sqlite3_bind_def Let_def)

theorem rebind_discards_result_witness:
  "execute stmt0 eng0 row_answer = (Inr (), stmt_row, eng_row) \<and>
   result_discarded stmt_rebound \<and>
   result_discarded (fst (snd (bindSame stmt_row eng_row)))"
  using rebind_discards_result [OF execute_stmt0_row, of "BindInt 7" SQLITE_OK]
  by (simp add: execute_stmt0_row bind_stmt_row)

text \<open>
  The claim as stated fails: with a two-column row current, binding slot 1 again and
  then calling \<^verbatim>\<open>numFields()\<close> on the row view returns 0; it does not throw.
\<close>

theorem numFields_after_rebind_counterexample:
  "execute stmt0 eng0 row_answer = (Inr (), stmt_row, eng_row) \<and>
   numFields stmt_row = Inr 2 \<and>
   bind stmt_row eng_row (BindInt 7) SQLITE_OK = (Inr (), stmt_rebound, eng_rebound) \<and>
   numFields stmt_rebound = Inr 0 \<and>
   numFields stmt_rebound \<noteq> Inl (Throw InvalidState)"
  by (simp add: execute_stmt0_row bind_stmt_row)
    (simp add: numFields_def stmt_row_def stmt_rebound_def)

subsection \<open>Closing a connection\<close>

lemma next_stmt_None: "sqlite3_next_stmt eng h = None \<longleftrightarrow> (\<forall>v. (v, h) \<notin> set (stmts eng))"
  by (auto simp: sqlite3_next_stmt_def find_None_iff)

lemma close_still_open:
  "mpDB db = Some h \<Longrightarrow> (v, h) \<in> set (stmts eng) \<Longrightarrow>
   close db eng rc msg = (Inl (Throw StatementsStillOpen), db, eng)"
  using next_stmt_None [of eng h] by (auto simp: close_def StatementsStillOpen_def)

lemma close_ok:
  "mpDB db = Some h \<Longrightarrow> \<forall>v. (v, h) \<notin> set (stmts eng) \<Longrightarrow>
   close db eng SQLITE_OK msg = (Inr (), db\<lparr>mpDB := None\<rparr>, sqlite3_close eng h SQLITE_OK)"
  using next_stmt_None [of eng h] by (simp add: close_def Let_def)

lemma close_closed: "mpDB db = None \<Longrightarrow> close db eng rc msg = (Inr (), db, eng)"
  by (simp add: close_def)

lemma destructor_swallows: "SqlDatabase_destructor db eng rc msg = snd (close db eng rc msg)"
  by (simp add: SqlDatabase_destructor_def split: prod.splits sum.splits)

lemma stmts_destroy:
  "stmts (snd (destroy s eng)) =
     (case mpVM s of None \<Rightarrow> stmts eng | Some vm \<Rightarrow> filter (\<lambda>(v, d). v \<noteq> vm) (stmts eng))"
  by (simp add: destroy_def sqlite3_finalize_def Let_def split: option.splits)

lemma set_stmts_destroy:
  "set (stmts (snd (destroy s eng))) = {(v, d). (v, d) \<in> set (stmts eng) \<and> mpVM s \<noteq> Some v}"
  by (auto simp: stmts_destroy split: option.splits)

lemma set_stmts_destroy_all:
  "set (stmts (destroy_all ss eng)) =
     {(v, d). (v, d) \<in> set (stmts eng) \<and> Some v \<notin> mpVM ` set ss}"
proof (induction ss arbitrary: eng)
  case Nil
  show ?case by (simp add: destroy_all_def)
next
  case (Cons s ss)
  have "destroy_all (s # ss) eng = destroy_all ss (snd (destroy s eng))"
    by (simp add: destroy_all_def)
  then show ?case
    using Cons.IH [of "snd (destroy s eng)"] by (auto simp: set_stmts_destroy)
qed

text \<open>
  When no statement is left but the engine refuses the close, the failure of its
  status is thrown and the connection keeps its handle.
\<close>

lemma close_engine_refuses:
  "mpDB db = Some h \<Longrightarrow> \<forall>v. (v, h) \<notin> set (stmts eng) \<Longrightarrow> rc \<noteq> SQLITE_OK \<Longrightarrow>
   close db eng rc msg = (Inl (ThrowStatusCodeException rc msg), db, sqlite3_close eng h rc)"
  using next_stmt_None [of eng h] by (simp add: close_def Let_def)

text \<open>
  C5. On an open connection, \<^verbatim>\<open>close()\<close> throws StatementsStillOpen whenever the
  engine still holds a prepared statement of the connection, and leaves the connection
  and the engine as they were. Once the destructors of statements holding every such
  handle have run, \<^verbatim>\<open>close()\<close> reaches \<^verbatim>\<open>sqlite3_close\<close>; when the engine accepts
  (it answers \<^verbatim>\<open>SQLITE_OK\<close>), \<^verbatim>\<open>close()\<close> returns, the connection holds no handle and
  the engine has released it. On a connection without a handle \<^verbatim>\<open>close()\<close> does
  nothing. The destructor runs \<^verbatim>\<open>close()\<close> and returns its state whatever the outcome.
\<close>

theorem close_contract:
  assumes h: "mpDB db = Some h"
  shows "((\<exists>v. (v, h) \<in> set (stmts eng)) \<longrightarrow>
            close db eng rc msg = (Inl (Throw StatementsStillOpen), db, eng)) \<and>
         ((\<forall>v. (v, h) \<in> set (stmts eng) \<longrightarrow> Some v \<in> mpVM ` set ss) \<longrightarrow>
            close db (destroy_all ss eng) SQLITE_OK msg =
              (Inr (), db\<lparr>mpDB := None\<rparr>, sqlite3_close (destroy_all ss eng) h SQLITE_OK) \<and>
            h \<notin> set (conns (sqlite3_close (destroy_all ss eng) h SQLITE_OK))) \<and>
         close (db\<lparr>mpDB := None\<rparr>) eng rc msg = (Inr (), db\<lparr>mpDB := None\<rparr>, eng) \<and>
         SqlDatabase_destructor db eng rc msg = snd (close db eng rc msg)"
proof -
  have a: "(\<exists>v. (v, h) \<in> set (stmts eng)) \<longrightarrow>
            close db eng rc msg = (Inl (Throw StatementsStillOpen), db, eng)"
    using close_still_open [OF h] by blast
  have b: "(\<forall>v. (v, h) \<in> set (stmts eng) \<longrightarrow> Some v \<in> mpVM ` set ss) \<longrightarrow>
            close db (destroy_all ss eng) SQLITE_OK msg =
              (Inr (), db\<lparr>mpDB := None\<rparr>, sqlite3_close (destroy_all ss eng) h SQLITE_OK)"
  proof
    assume "\<forall>v. (v, h) \<in> set (stmts eng) \<longrightarrow> Some v \<in> mpVM ` set ss"
    then have "\<forall>v. (v, h) \<notin> set (stmts (destroy_all ss eng))"
      by (auto simp: set_stmts_destroy_all)
    then show "close db (destroy_all ss eng) SQLITE_OK msg =
              (Inr (), db\<lparr>mpDB := None\<rparr>, sqlite3_close (destroy_all ss eng) h SQLITE_OK)"
      by (rule close_ok [OF h])
  qed
  have c: "h \<notin> set (conns (sqlite3_close (destroy_all ss eng) h SQLITE_OK))"
    by (simp add: sqlite3_close_def)
  have d: "close (db\<lparr>mpDB := None\<rparr>) eng rc msg = (Inr (), db\<lparr>mpDB := None\<rparr>, eng)"
    by (simp add: close_closed)
  from a b c d destructor_swallows show ?thesis by blast
qed

lemma destroy_stmt0: "destroy_all [stmt0] eng0 = eng_idle\<lparr>calls := [Finalize 3]\<rparr>"
  by (simp add: destroy_all_def destroy_def stmt0_def eng0_def eng_idle_def sqlite3_finalize_def)

theorem close_contract_witness:
  "mpDB db1 = Some 1 \<and> (3, 1) \<in> set (stmts eng0) \<and>
   close db1 eng0 SQLITE_OK [] = (Inl (Throw StatementsStillOpen), db1, eng0) \<and>
   SqlDatabase_destructor db1 eng0 SQLITE_OK [] = (db1, eng0) \<and>
   close db1 (destroy_all [stmt0] eng0) SQLITE_OK [] =
     (Inr (), db_closed, \<lparr>stmts = [], conns = [], calls = [Finalize 3, Close 1]\<rparr>) \<and>
   close db_closed eng0 SQLITE_OK [] = (Inr (), db_closed, eng0)"
proof -
  have h: "mpDB db1 = Some 1" by (simp add: db1_def)
  have m: "(3, 1) \<in> set (stmts eng0)" by (simp add: eng0_def)
  have n: "\<forall>v. (v, 1) \<in> set (stmts eng0) \<longrightarrow> Some v \<in> mpVM ` set [stmt0]"
    by (simp add: eng0_def stmt0_def)
  have c: "db1\<lparr>mpDB := None\<rparr> = db_closed" by (simp add: db1_def db_closed_def)
  from close_contract [OF h, of eng0 SQLITE_OK "[]" "[stmt0]"] h m n show ?thesis
    by (auto simp: c destroy_stmt0 sqlite3_close_def eng_idle_def)
qed

subsection \<open>Copying statements and connections\<close>

lemma destroy_no_handle: "mpVM s = None \<Longrightarrow> snd (destroy s eng) = eng"
  by (simp add: destroy_def Let_def)

lemma SqlStatement_copy_distinct:
  assumes "this \<noteq> rStatement"
  shows "SqlStatement_copy st this rStatement this = st rStatement"
    and "SqlStatement_copy st this rStatement rStatement = (st rStatement)\<lparr>mpVM := None\<rparr>"
  using assms by (simp_all add: SqlStatement_copy_def Let_def)

lemma SqlStatement_assign_distinct:
  assumes "this \<noteq> rStatement"
  shows "fst (SqlStatement_assign st eng this rStatement) this = st rStatement"
    and "fst (SqlStatement_assign st eng this rStatement) rStatement = (st rStatement)\<lparr>mpVM := None\<rparr>"
    and "snd (SqlStatement_assign st eng this rStatement) = snd (destroy (st this) eng)"
  using assms by (simp_all add: SqlStatement_assign_def Let_def split: prod.splits)

lemma SqlDatabase_copy_distinct:
  assumes "this \<noteq> db"
  shows "mpDB (SqlDatabase_copy st this db this) = mpDB (st db)"
    and "SqlDatabase_copy st this db db = st db"
    and "mpDB (SqlDatabase_assign st this db this) = mpDB (st db)"
    and "SqlDatabase_assign st this db db = st db"
  using assms by (simp_all add: SqlDatabase_copy_def SqlDatabase_assign_def Let_def)

lemma SqlDatabase_timeout:
  "mnBusyTimeoutMs (SqlDatabase_copy st this db this) = 60000"
  "mnBusyTimeoutMs (SqlDatabase_assign st this db this) = 60000"
  by (simp_all add: SqlDatabase_copy_def SqlDatabase_assign_def Let_def)

lemma SqlStatement_assign_self:
  "mpVM (fst (SqlStatement_assign st eng this this) this) = None \<and>
   snd (SqlStatement_assign st eng this this) = snd (destroy (st this) eng)"
  by (simp add: SqlStatement_assign_def destroy_def Let_def split: prod.splits option.splits)

text \<open>
  C1, as the code has it. For a statement, the copy constructor and the assignment
  operator, from a source that is another object, give the destination the source's
  native handle and leave the source without one, so that the source's destructor
  makes no call to the engine. For a connection, the copy constructor and the
  assignment operator (both private) give the destination the source's handle, set
  the destination's busy timeout to 60000 and do not touch the source.
\<close>

theorem copy_transfers_statement_handle:
  assumes "this \<noteq> src"
  shows "mpVM (SqlStatement_copy st this src this) = mpVM (st src) \<and>
         mpVM (SqlStatement_copy st this src src) = None \<and>
         snd (SqlStatement_destructor (SqlStatement_copy st this src src) eng) = eng \<and>
         mpVM (fst (SqlStatement_assign st eng this src) this) = mpVM (st src) \<and>
         mpVM (fst (SqlStatement_assign st eng this src) src) = None \<and>
         snd (SqlStatement_destructor (fst (SqlStatement_assign st eng this src) src) eng') = eng' \<and>
         mpDB (SqlDatabase_copy dst this src this) = mpDB (dst src) \<and>
         mnBusyTimeoutMs (SqlDatabase_copy dst this src this) = 60000 \<and>
         SqlDatabase_copy dst this src src = dst src \<and>
         mpDB (SqlDatabase_assign dst this src this) = mpDB (dst src) \<and>
         mnBusyTimeoutMs (SqlDatabase_assign dst this src this) = 60000 \<and>
         SqlDatabase_assign dst this src src = dst src"
  using assms
  by (simp add: SqlStatement_copy_distinct SqlStatement_assign_distinct SqlDatabase_copy_distinct
      SqlDatabase_timeout SqlStatement_destructor_def destroy_no_handle)

theorem copy_transfers_statement_handle_witness:
  "(0::nat) \<noteq> 1 \<and>
   mpVM (stmt_store 1) = Some 3 \<and>
   mpVM (SqlStatement_copy stmt_store 0 1 0) = Some 3 \<and>
   mpVM (SqlStatement_copy stmt_store 0 1 1) = None \<and>
   snd (SqlStatement_destructor (SqlStatement_copy stmt_store 0 1 1) eng_row) = eng_row \<and>
   mpVM (fst (SqlStatement_assign stmt_store eng_row 0 1) 0) = Some 3 \<and>
   mpVM (fst (SqlStatement_assign stmt_store eng_row 0 1) 1) = None \<and>
   mnBusyTimeoutMs (db_store 0) = 5 \<and>
   mpDB (SqlDatabase_assign db_store 0 1 0) = Some 1 \<and>
   mnBusyTimeoutMs (SqlDatabase_assign db_store 0 1 0) = 60000 \<and>
   SqlDatabase_assign db_store 0 1 1 = db1 \<and>
   mpDB (SqlDatabase_copy db_store 0 1 0) = Some 1 \<and>
   mnBusyTimeoutMs (SqlDatabase_copy db_store 0 1 0) = 60000"
proof -
  have n: "(0::nat) \<noteq> 1" by simp
  have s: "mpVM (stmt_store 1) = Some 3" by (simp add: stmt_store_def stmt_row_def)
  have d: "db_store 1 = db1" "mpDB db1 = Some 1" "mnBusyTimeoutMs (db_store 0) = 5"
    by (simp_all add: db_store_def db1_def db_unset_def)
  from copy_transfers_statement_handle [OF n, of stmt_store eng_row eng_row db_store] n s d
  show ?thesis by simp
qed

text \<open>
  The claim as stated fails for connections: after a copy (or an assignment) the
  source still holds handle 1, and its destructor closes that handle in the engine.
\<close>

theorem SqlDatabase_copy_counterexample:
  "mpDB (db_store 1) = Some 1 \<and>
   mpDB (SqlDatabase_copy db_store 0 1 0) = Some 1 \<and>
   mpDB (SqlDatabase_copy db_store 0 1 1) = Some 1 \<and>
   SqlDatabase_destructor (SqlDatabase_copy db_store 0 1 1) eng_idle SQLITE_OK [] =
     (db_closed, \<lparr>stmts = [], conns = [], calls = [Close 1]\<rparr>) \<and>
   mpDB (SqlDatabase_assign db_store 0 1 1) = Some 1"
  by (simp add: SqlDatabase_copy_def SqlDatabase_assign_def db_store_def db1_def db_closed_def
      db_unset_def SqlDatabase_destructor_def close_def sqlite3_next_stmt_def sqlite3_close_def
      eng_idle_def SQLITE_OK_def Let_def)

subsection \<open>Compiling one statement\<close>

lemma sqlCompile_open:
  assumes "mpDB db = Some h" "pzTail pa = Some szTail"
  shows "sqlCompile db eng szSQL pa =
           ((if prep_result pa \<noteq> SQLITE_OK
             then Inl (ThrowStatusCodeException (prep_result pa) (prep_errmsg pa))
             else if szTail \<noteq> [] then Inl (Throw MultipleStatements)
             else Inr (SqlStatement_new (ppStmt pa))),
            sqlite3_prepare_v2 eng h szSQL (ppStmt pa))"
  using assms by (simp add: sqlCompile_def MultipleStatements_def Let_def)

text \<open>
  What \<^verbatim>\<open>sqlCompile\<close> does with the tail the engine reports. On an open connection
  it calls the engine's prepare once on the text. When the engine prepares the first
  statement successfully, MultipleStatements is thrown if and only if the tail is not
  empty, whatever it holds, and the statement is returned if and only if the tail is
  empty. When the engine's prepare fails, the failure of its status is thrown instead.
\<close>

theorem sqlCompile_single_statement:
  assumes "mpDB db = Some h" "pzTail pa = Some szTail"
  shows "calls (snd (sqlCompile db eng szSQL pa)) = calls eng @ [Prepare h szSQL] \<and>
         (prep_result pa = SQLITE_OK \<longrightarrow>
            (fst (sqlCompile db eng szSQL pa) = Inl (Throw MultipleStatements) \<longleftrightarrow> szTail \<noteq> []) \<and>
            (fst (sqlCompile db eng szSQL pa) = Inr (SqlStatement_new (ppStmt pa)) \<longleftrightarrow> szTail = [])) \<and>
         (prep_result pa \<noteq> SQLITE_OK \<longrightarrow>
            fst (sqlCompile db eng szSQL pa) =
              Inl (ThrowStatusCodeException (prep_result pa) (prep_errmsg pa)))"
  by (simp add: sqlCompile_open [OF assms] sqlite3_prepare_v2_def)

theorem sqlCompile_single_statement_witness:
  "mpDB db1 = Some 1 \<and> pzTail select_exact = Some [] \<and> prep_result select_exact = SQLITE_OK \<and>
   sqlCompile db1 eng_idle ''SELECT 1;'' select_exact =
     (Inr stmt0, \<lparr>stmts = [(3, 1)], conns = [1], calls = [Prepare 1 ''SELECT 1;'']\<rparr>)"
proof -
  have h: "mpDB db1 = Some 1" and t: "pzTail select_exact = Some []"
    and k: "prep_result select_exact = SQLITE_OK"
    by (simp_all add: db1_def select_exact_def SQLITE_OK_def)
  have e: "snd (sqlCompile db1 eng_idle ''SELECT 1;'' select_exact) =
             \<lparr>stmts = [(3, 1)], conns = [1], calls = [Prepare 1 ''SELECT 1;'']\<rparr>"
    by (simp add: sqlCompile_def db1_def sqlite3_prepare_v2_def eng_idle_def select_exact_def
        SQLITE_OK_def Let_def)
  have n: "SqlStatement_new (ppStmt select_exact) = stmt0"
    by (simp add: SqlStatement_new_def select_exact_def stmt0_def)
  from sqlCompile_single_statement [OF h t, of eng_idle "''SELECT 1;''"] h t k e n
  show ?thesis by (simp add: prod_eq_iff)
qed

text \<open>
  C3. A text of one statement followed only by whitespace should compile, and
  MultipleStatements should be raised only when non-whitespace text remains. The code
  tests \<^verbatim>\<open>szTail[0] != '\0'\<close> instead. For \<^verbatim>\<open>"SELECT 1; "\<close> the engine prepares
  \<^verbatim>\<open>SELECT 1;\<close> and reports the blank after the semicolon as the tail: no
  non-whitespace text remains, no other statement is there to be ignored, and
  \<^verbatim>\<open>sqlCompile\<close> throws MultipleStatements, leaving the prepared statement live in
  the engine.
\<close>

theorem sqlCompile_rejects_trailing_blank:
  "pzTail select_then_space = Some '' '' \<and>
   ''SELECT 1; '' = ''SELECT 1;'' @ '' '' \<and>
   \<not> remains_non_whitespace '' '' \<and>
   sqlCompile db1 eng_idle ''SELECT 1; '' select_then_space =
     (Inl (Throw MultipleStatements),
      \<lparr>stmts = [(3, 1)], conns = [1], calls = [Prepare 1 ''SELECT 1; '']\<rparr>)"
  by (simp add: remains_non_whitespace_def isspace_def sqlCompile_def db1_def eng_idle_def
      select_then_space_def sqlite3_prepare_v2_def MultipleStatements_def SQLITE_OK_def Let_def)

subsection \<open>Typed getters\<close>

lemma fieldDataType_valid:
  "mpVM p = Some vm \<Longrightarrow> 0 \<le> nField \<Longrightarrow> nField < mColsInResult p \<Longrightarrow>
   fieldDataType p r nField = Inr (column_type r nField)"
  by (simp add: fieldDataType_def checkIndex_def)

lemma fieldIndex_from_range:
  "fieldIndex_from r szField cols nField = Some n \<Longrightarrow> nField \<le> n \<and> n < cols"
proof (induction r szField cols nField rule: fieldIndex_from.induct)
  case (1 r szField cols nField)
  show ?case
  proof (cases "nField < cols \<and> szField \<noteq> column_name r nField")
    case True
    then have "fieldIndex_from r szField cols (nField + 1) = Some n"
      using "1.prems" by (simp add: fieldIndex_from.simps [of r szField cols nField])
    with "1.IH" True show ?thesis by fastforce
  next
    case False
    then show ?thesis
      using "1.prems" by (auto simp: fieldIndex_from.simps [of r szField cols nField] split: if_splits)
  qed
qed

lemma fieldIndex_Inr:
  "fieldIndex p r szField = Inr n \<Longrightarrow> (\<exists>vm. mpVM p = Some vm) \<and> 0 \<le> n \<and> n < mColsInResult p"
  by (auto simp: fieldIndex_def assertion_failed_def split: option.splits
      dest: fieldIndex_from_range)

lemma getters_valid:
  assumes "mpVM p = Some vm" "0 \<le> nField" "nField < mColsInResult p"
  shows "getIntField p r nField nv =
           Inr (if column_type r nField = SQLITE_NULL then nv else column_int r nField)"
    and "getInt64Field p r nField nv =
           Inr (if column_type r nField = SQLITE_NULL then scast nv else column_int64 r nField)"
    and "getFloatField p r nField fv =
           Inr (if column_type r nField = SQLITE_NULL then fv else column_double r nField)"
    and "getStringField p r nField sv =
           Inr (if column_type r nField = SQLITE_NULL then sv else column_text r nField)"
  by (simp_all add: getIntField_def getInt64Field_def getFloatField_def getStringField_def
      fieldDataType_valid [OF assms])

lemma name_getters_fail_iff:
  "getIntField_name p r szField nv = Inl f \<longleftrightarrow> fieldIndex p r szField = Inl f"
  "getInt64Field_name p r szField nv = Inl f \<longleftrightarrow> fieldIndex p r szField = Inl f"
  "getFloatField_name p r szField fv = Inl f \<longleftrightarrow> fieldIndex p r szField = Inl f"
  "getStringField_name p r szField sv = Inl f \<longleftrightarrow> fieldIndex p r szField = Inl f"
  by (auto simp: getIntField_name_def getInt64Field_name_def getFloatField_name_def
      getStringField_name_def getters_valid split: sum.splits dest!: fieldIndex_Inr)

lemma sint_widened: "sint (scast (nv :: c_int) :: int64_t) = sint nv"
  by (rule sint_up_scast) (simp add: is_up)

text \<open>
  C6, as the code has it. With a live handle and a column index inside the current
  result, each typed getter returns the substitute it was given when the cell's
  runtime type is NULL and the engine's coerced value otherwise. The substitute of
  \<^verbatim>\<open>getIntField\<close> and of \<^verbatim>\<open>getInt64Field\<close> is a 32-bit \<^verbatim>\<open>int\<close>;
  \<^verbatim>\<open>getInt64Field\<close> returns it widened to 64 bits, with the same value. The declared
  defaults of the substitute are 0, 0.0 and the empty text. Each name-based overload
  is \<^verbatim>\<open>fieldIndex\<close> followed by the index-based form, and fails with FieldNotFound
  exactly when \<^verbatim>\<open>fieldIndex\<close> does.
\<close>

theorem typed_getters_null_substitute:
  assumes "mpVM p = Some vm" "0 \<le> nField" "nField < mColsInResult p"
  shows "getIntField p r nField nv =
           Inr (if column_type r nField = SQLITE_NULL then nv else column_int r nField) \<and>
         getInt64Field p r nField nv =
           Inr (if column_type r nField = SQLITE_NULL then scast nv
                else column_int64 r nField) \<and>
         sint (scast nv :: int64_t) = sint nv \<and>
         getFloatField p r nField fv =
           Inr (if column_type r nField = SQLITE_NULL then fv else column_double r nField) \<and>
         getStringField p r nField sv =
           Inr (if column_type r nField = SQLITE_NULL then sv else column_text r nField) \<and>
         nNullValue_default = 0 \<and> fNullValue_default = 0 \<and> szNullValue_default = [] \<and>
         getIntField_name p r szField nv =
           (case fieldIndex p r szField of Inl f \<Rightarrow> Inl f | Inr n \<Rightarrow> getIntField p r n nv) \<and>
         getInt64Field_name p r szField nv =
           (case fieldIndex p r szField of Inl f \<Rightarrow> Inl f | Inr n \<Rightarrow> getInt64Field p r n nv) \<and>
         getFloatField_name p r szField fv =
           (case fieldIndex p r szField of Inl f \<Rightarrow> Inl f | Inr n \<Rightarrow> getFloatField p r n fv) \<and>
         getStringField_name p r szField sv =
           (case fieldIndex p r szField of Inl f \<Rightarrow> Inl f | Inr n \<Rightarrow> getStringField p r n sv) \<and>
         (getIntField_name p r szField nv = Inl (Throw FieldNotFound) \<longleftrightarrow>
            fieldIndex p r szField = Inl (Throw FieldNotFound)) \<and>
         (getInt64Field_name p r szField nv = Inl (Throw FieldNotFound) \<longleftrightarrow>
            fieldIndex p r szField = Inl (Throw FieldNotFound)) \<and>
         (getFloatField_name p r szField fv = Inl (Throw FieldNotFound) \<longleftrightarrow>
            fieldIndex p r szField = Inl (Throw FieldNotFound)) \<and>
         (getStringField_name p r szField sv = Inl (Throw FieldNotFound) \<longleftrightarrow>
            fieldIndex p r szField = Inl (Throw FieldNotFound))"
proof -
  have g: "getIntField p r nField nv =
           Inr (if column_type r nField = SQLITE_NULL then nv else column_int r nField) \<and>
         getInt64Field p r nField nv =
           Inr (if column_type r nField = SQLITE_NULL then scast nv
                else column_int64 r nField) \<and>
         sint (scast nv :: int64_t) = sint nv \<and>
         getFloatField p r nField fv =
           Inr (if column_type r nField = SQLITE_NULL then fv else column_double r nField) \<and>
         getStringField p r nField sv =
           Inr (if column_type r nField = SQLITE_NULL then sv else column_text r nField)"
    by (simp add: getters_valid [OF assms] sint_widened)
  have f: "(getIntField_name p r szField nv = Inl (Throw FieldNotFound) \<longleftrightarrow>
            fieldIndex p r szField = Inl (Throw FieldNotFound)) \<and>
         (getInt64Field_name p r szField nv = Inl (Throw FieldNotFound) \<longleftrightarrow>
            fieldIndex p r szField = Inl (Throw FieldNotFound)) \<and>
         (getFloatField_name p r szField fv = Inl (Throw FieldNotFound) \<longleftrightarrow>
            fieldIndex p r szField = Inl (Throw FieldNotFound)) \<and>
         (getStringField_name p r szField sv = Inl (Throw FieldNotFound) \<longleftrightarrow>
            fieldIndex p r szField = Inl (Throw FieldNotFound))"
    by (simp only: name_getters_fail_iff)
  have d: "nNullValue_default = 0 \<and> fNullValue_default = 0 \<and> szNullValue_default = []"
    by (simp add: nNullValue_default_def fNullValue_default_def szNullValue_default_def)
  have n: "getIntField_name p r szField nv =
           (case fieldIndex p r szField of Inl f \<Rightarrow> Inl f | Inr n \<Rightarrow> getIntField p r n nv) \<and>
         getInt64Field_name p r szField nv =
           (case fieldIndex p r szField of Inl f \<Rightarrow> Inl f | Inr n \<Rightarrow> getInt64Field p r n nv) \<and>
         getFloatField_name p r szField fv =
           (case fieldIndex p r szField of Inl f \<Rightarrow> Inl f | Inr n \<Rightarrow> getFloatField p r n fv) \<and>
         getStringField_name p r szField sv =
           (case fieldIndex p r szField of Inl f \<Rightarrow> Inl f | Inr n \<Rightarrow> getStringField p r n sv)"
    by (simp add: getIntField_name_def getInt64Field_name_def getFloatField_name_def
        getStringField_name_def)
  from g d n f show ?thesis by blast
qed

lemma fieldIndex_null_row:
  "fieldIndex stmt_row null_row (Some ''name'') = Inr 1"
  "fieldIndex stmt_row null_row (Some ''Name'') = Inl (Throw FieldNotFound)"
  by (simp_all add: fieldIndex_def stmt_row_def null_row_def fieldIndex_from.simps
      FieldNotFound_def)

theorem typed_getters_null_substitute_witness:
  "mpVM stmt_row = Some 3 \<and> (0::int) \<le> 1 \<and> 1 < mColsInResult stmt_row \<and>
   column_type null_row 1 = SQLITE_NULL \<and>
   getIntField stmt_row null_row 1 (- 7) = Inr (- 7) \<and>
   getInt64Field stmt_row null_row 1 (- 7) = Inr (- 7) \<and>
   sint (- 7 :: int64_t) = - 7 \<and>
   getFloatField stmt_row null_row 1 9 = Inr 9 \<and>
   getStringField stmt_row null_row 1 ''none'' = Inr ''none'' \<and>
   getStringField_name stmt_row null_row (Some ''name'') ''none'' = Inr ''none'' \<and>
   getIntField_name stmt_row null_row (Some ''Name'') (- 7) = Inl (Throw FieldNotFound)"
proof -
  have h: "mpVM stmt_row = Some 3" "(0::int) \<le> 1" "1 < mColsInResult stmt_row"
    by (simp_all add: stmt_row_def)
  have t: "column_type null_row 1 = SQLITE_NULL"
    by (simp add: null_row_def SQLITE_NULL_def)
  from typed_getters_null_substitute [OF h, of null_row "- 7" 9 "''none''" "Some ''name''"]
    typed_getters_null_substitute [OF h, of null_row "- 7" 9 "''none''" "Some ''Name''"] h t
  show ?thesis by (simp add: fieldIndex_null_row)
qed

text \<open>
  The claim as stated fails for \<^verbatim>\<open>getInt64Field\<close>: the substitute 1099511627781
  (\<open>2^40 + 5\<close>), a value of the type the getter returns, reaches the \<^verbatim>\<open>int\<close>
  parameter as 5, and on a NULL cell 5 is returned.
\<close>

theorem getInt64Field_wide_substitute_counterexample:
  "column_type null_row 1 = SQLITE_NULL \<and>
   int_conversion 1099511627781 = 5 \<and>
   getInt64Field stmt_row null_row 1 (int_conversion 1099511627781) = Inr 5 \<and>
   (5 :: int64_t) \<noteq> 1099511627781"
  by (simp add: getInt64Field_def fieldDataType_def checkIndex_def stmt_row_def null_row_def
      SQLITE_NULL_def int_conversion_def)

subsection \<open>Scalar queries\<close>

lemma sqlQuery_prepared:
  assumes "mpDB db = Some h" "vmprintf szSQL = Some sql" "pzTail pa = Some []"
    "prep_result pa = SQLITE_OK" "ppStmt pa = Some vm"
  shows "sqlQuery db eng vmprintf szSQL pa sa =
           (if result sa = SQLITE_DONE
            then (Inr \<lparr>mpVM = Some vm, mBindNext = 1, mEndOfRows = True, mColsInResult = 0\<rparr>,
                  sqlite3_step (sqlite3_prepare_v2 eng h sql (Some vm)) vm)
            else if result sa = SQLITE_ROW
            then (Inr \<lparr>mpVM = Some vm, mBindNext = 1, mEndOfRows = False,
                       mColsInResult = column_count sa\<rparr>,
                  sqlite3_step (sqlite3_prepare_v2 eng h sql (Some vm)) vm)
            else (Inl (ThrowStatusCodeException (result sa) (errmsg sa)),
                  sqlite3_finalize (sqlite3_step (sqlite3_prepare_v2 eng h sql (Some vm)) vm) vm))"
  using assms
  by (simp add: sqlQuery_def sqlQueryVar_def execute_def SqlStatement_new_def destroy_def Let_def)

lemma getScalar_of_query:
  assumes "sqlQuery db eng vmprintf szSQL pa sa = (Inr q, eng1)" "mpVM q = Some vm"
  shows "fst (getScalar db eng vmprintf szSQL errorValue pa sa r) =
           Inr (if \<not> hasRow q \<or> mColsInResult q < 1 then errorValue
                else if column_type r 0 = SQLITE_NULL then 0
                else column_int r 0)"
  using assms
  by (auto simp: getScalar_def hasRow_def currentRow_def numFields_def getIntField_def
      fieldDataType_def checkIndex_def nNullValue_default_def Let_def)

text \<open>
  What \<^verbatim>\<open>getScalar\<close> returns once the text the formatter made of its argument is
  prepared as one statement and the step answers "done" or "row": the caller's
  \<open>errorValue\<close> on "done" or when the row has no column, and otherwise the integer of
  column 0 of the first row (0 for a NULL cell).
\<close>

lemma getScalar_value:
  assumes "mpDB db = Some h" "vmprintf szSQL = Some sql" "pzTail pa = Some []"
    "prep_result pa = SQLITE_OK" "ppStmt pa = Some vm"
    and "result sa = SQLITE_DONE \<or> result sa = SQLITE_ROW"
  shows "fst (getScalar db eng vmprintf szSQL errorValue pa sa r) =
           Inr (if result sa = SQLITE_DONE \<or> column_count sa < 1 then errorValue
                else if column_type r 0 = SQLITE_NULL then 0
                else column_int r 0)"
proof -
  have q: "sqlQuery db eng vmprintf szSQL pa sa =
           (if result sa = SQLITE_DONE
            then (Inr \<lparr>mpVM = Some vm, mBindNext = 1, mEndOfRows = True, mColsInResult = 0\<rparr>,
                  sqlite3_step (sqlite3_prepare_v2 eng h sql (Some vm)) vm)
            else if result sa = SQLITE_ROW
            then (Inr \<lparr>mpVM = Some vm, mBindNext = 1, mEndOfRows = False,
                       mColsInResult = column_count sa\<rparr>,
                  sqlite3_step (sqlite3_prepare_v2 eng h sql (Some vm)) vm)
            else (Inl (ThrowStatusCodeException (result sa) (errmsg sa)),
                  sqlite3_finalize (sqlite3_step (sqlite3_prepare_v2 eng h sql (Some vm)) vm) vm))"
    using assms(1-5) by (rule sqlQuery_prepared)
  show ?thesis
  proof (cases "result sa = SQLITE_DONE")
    case True
    with q show ?thesis
      by (simp add: getScalar_of_query [where vm = vm] hasRow_def)
  next
    case False
    with assms(6) have w: "result sa = SQLITE_ROW" by simp
    with q False show ?thesis
      by (simp add: getScalar_of_query [where vm = vm] hasRow_def)
  qed
qed

lemma getScalar_count_example:
  "mpDB db1 = Some 1 \<and> no_format ''SELECT COUNT(*) FROM t WHERE id=999'' =
     Some ''SELECT COUNT(*) FROM t WHERE id=999'' \<and>
   pzTail select_exact = Some [] \<and> prep_result select_exact = SQLITE_OK \<and>
   ppStmt select_exact = Some 3 \<and> result count_answer = SQLITE_ROW \<and>
   fst (getScalar db1 eng_idle no_format ''SELECT COUNT(*) FROM t WHERE id=999'' (- 1)
          select_exact count_answer count_row) = Inr 0"
proof -
  have h: "mpDB db1 = Some 1"
    "no_format ''SELECT COUNT(*) FROM t WHERE id=999'' = Some ''SELECT COUNT(*) FROM t WHERE id=999''"
    "pzTail select_exact = Some []" "prep_result select_exact = SQLITE_OK"
    "ppStmt select_exact = Some 3"
    by (simp_all add: db1_def no_format_def select_exact_def SQLITE_OK_def)
  have k: "result count_answer = SQLITE_ROW"
    by (simp add: count_answer_def SQLITE_ROW_def)
  then have k': "result count_answer = SQLITE_DONE \<or> result count_answer = SQLITE_ROW" ..
  from getScalar_value [where vmprintf = no_format and eng = eng_idle and errorValue = "- 1"
      and r = count_row, OF h k'] h k
  show ?thesis
    by (simp add: count_answer_def count_row_def SQLITE_DONE_def SQLITE_NULL_def)
qed

text \<open>
  A text that holds no statement is prepared to a null handle with status
  \<^verbatim>\<open>SQLITE_OK\<close>; \<^verbatim>\<open>getScalar\<close> then throws from \<^verbatim>\<open>execute()\<close> instead of returning
  \<open>errorValue\<close>.
\<close>

lemma getScalar_statementless_text:
  "getScalar db1 eng_idle no_format [] (- 1)
     \<lparr>prep_result = 0, ppStmt = None, pzTail = Some [], prep_errmsg = []\<rparr> done_answer count_row =
   (Inl (assertion_failed ''mpVM != NULL''),
    \<lparr>stmts = [], conns = [1], calls = [Prepare 1 []]\<rparr>)"
  by (simp add: getScalar_def sqlQuery_def sqlQueryVar_def db1_def eng_idle_def no_format_def
      sqlite3_prepare_v2_def SQLITE_OK_def execute_def SqlStatement_new_def destroy_def Let_def)

text \<open>
  C7. \<^verbatim>\<open>getScalar(sql, errorValue)\<close> should return column 0 of the first row of the
  query it is given. It hands \<^verbatim>\<open>sql\<close> to \<^verbatim>\<open>sqlQuery\<close> as a printf format with no
  arguments, so the engine prepares what the formatter makes of the text. For
  \<^verbatim>\<open>"SELECT 7 % 4"\<close> the formatter stops at the \<^verbatim>\<open>%\<close>; the engine is asked to
  prepare \<^verbatim>\<open>"SELECT 7 "\<close>, and \<^verbatim>\<open>getScalar\<close> returns 7, the value of that other
  query, where the query given has the value 3.
\<close>

theorem getScalar_formats_its_sql:
  "format_modulo ''SELECT 7 % 4'' = Some ''SELECT 7 '' \<and>
   ''SELECT 7 '' \<noteq> ''SELECT 7 % 4'' \<and>
   getScalar db1 eng_idle format_modulo ''SELECT 7 % 4'' (- 1) select_exact count_answer seven_row =
     (Inr 7,
      \<lparr>stmts = [], conns = [1], calls = [Prepare 1 ''SELECT 7 '', Step 3, Finalize 3]\<rparr>)"
  by (simp add: getScalar_def sqlQuery_def sqlQueryVar_def db1_def eng_idle_def format_modulo_def
      select_exact_def count_answer_def seven_row_def sqlite3_prepare_v2_def sqlite3_step_def
      sqlite3_finalize_def SQLITE_OK_def SQLITE_DONE_def SQLITE_ROW_def SQLITE_NULL_def
      execute_def SqlStatement_new_def destroy_def hasRow_def currentRow_def numFields_def
      getIntField_def fieldDataType_def checkIndex_def nNullValue_default_def Let_def)

subsection \<open>The buffer of tableExists\<close>

lemma length_tableExists_format: "length (tableExists_format szTable) = 65 + length szTable"
  by (simp add: tableExists_format_def)

text \<open>
  C9. The text \<^verbatim>\<open>tableExists\<close> formats takes 66 bytes of \<^verbatim>\<open>szSQL[128]\<close> with its
  terminator before the table name is counted, so the write stays inside the array
  exactly when the name has at most 62 bytes. The function makes no check: a longer
  name is written past the end of the array (undefined behaviour, no exception), and
  a name of at most 62 bytes goes on to \<^verbatim>\<open>getScalar\<close>.
\<close>

theorem tableExists_buffer:
  "sprintf_bytes (tableExists_format []) = 66 \<and>
   sprintf_bytes (tableExists_format szTable) = 66 + length szTable \<and>
   (sprintf_bytes (tableExists_format szTable) \<le> szSQL_size \<longleftrightarrow> length szTable \<le> 62) \<and>
   (62 < length szTable \<longrightarrow>
      tableExists db eng vmprintf szTable pa sa r = (Inl UndefinedBehaviour, eng)) \<and>
   (length szTable \<le> 62 \<longrightarrow>
      tableExists db eng vmprintf szTable pa sa r =
        (case getScalar db eng vmprintf (tableExists_format szTable) (- 1) pa sa r of
           (Inl f, eng1) \<Rightarrow> (Inl f, eng1)
         | (Inr nRet, eng1) \<Rightarrow> (Inr (sint nRet > 0), eng1)))"
  by (simp add: sprintf_bytes_def length_tableExists_format szSQL_size_def tableExists_def Let_def)

theorem tableExists_buffer_witness:
  "62 < length (replicate 63 CHR ''a'') \<and>
   sprintf_bytes (tableExists_format (replicate 63 CHR ''a'')) = 129 \<and>
   tableExists db1 eng_idle no_format (replicate 63 CHR ''a'') select_exact count_answer count_row =
     (Inl UndefinedBehaviour, eng_idle)"
  using tableExists_buffer [of "replicate 63 CHR ''a''" db1 eng_idle no_format select_exact
      count_answer count_row]
  by simp

end
